theory Spec2Isabelle
  imports Complex_Main "HOL-Library.Word"
begin

section \<open>Numbers\<close>

text \<open>
  The estimator of \<^verbatim>\<open>srs_estimator_generic_impl.cpp\<close> computes on \<^verbatim>\<open>cf_t\<close>
  (complex single precision), \<^verbatim>\<open>float\<close> and \<^verbatim>\<open>double\<close>. The embedding reads them as
  \<^typ>\<open>complex\<close> and \<^typ>\<open>real\<close>: the arithmetic is exact, rounding and overflow of
  the binary formats are outside the model, with one exception. Where a rounded value
  decides which table entry is read, in the computation of the phase shifts and of the
  phase indices, every operation is rounded to its binary format (\<open>fl32\<close>, \<open>fl64\<close>
  below). What IEEE-754 does where a finite operation
  has no finite result (a division by zero, \<open>0 \<times> \<infinity>\<close>, the logarithm of zero) is kept:
  the scalars that leave the last, normalising part of \<^verbatim>\<open>estimate\<close> are values of
  \<open>fval\<close>. The counters of type \<^verbatim>\<open>unsigned\<close> are naturals; the one place where their
  arithmetic can wrap, the divisors of the normalisation, is computed on \<^typ>\<open>32 word\<close>.
\<close>

datatype fval = Finite real | PInf | NInf | NaN

fun is_finite :: "fval \<Rightarrow> bool" where
  "is_finite (Finite x) = True"
| "is_finite PInf = False"
| "is_finite NInf = False"
| "is_finite NaN = False"

text \<open>Division of two finite numbers (the sign of a zero divisor is taken positive).\<close>

definition fdiv :: "real \<Rightarrow> real \<Rightarrow> fval" where
  "fdiv x y =
     (if y \<noteq> 0 then Finite (x / y)
      else if x = 0 then NaN
      else if 0 < x then PInf else NInf)"

fun f_sqrt :: "fval \<Rightarrow> fval" where
  "f_sqrt (Finite x) = (if x < 0 then NaN else Finite (sqrt x))"
| "f_sqrt PInf = PInf"
| "f_sqrt NInf = NaN"
| "f_sqrt NaN = NaN"

fun f_less :: "fval \<Rightarrow> fval \<Rightarrow> bool" where
  "f_less (Finite x) (Finite y) = (x < y)"
| "f_less (Finite x) PInf = True"
| "f_less NInf (Finite y) = True"
| "f_less NInf PInf = True"
| "f_less a b = False"

text \<open>\<^verbatim>\<open>std::max(a, b)\<close> is \<^verbatim>\<open>(a < b) ? b : a\<close>.\<close>

definition f_max :: "fval \<Rightarrow> fval \<Rightarrow> fval" where
  "f_max a b = (if f_less a b then b else a)"

text \<open>\<^verbatim>\<open>1 / noise_std\<close>.\<close>

fun f_recip :: "fval \<Rightarrow> fval" where
  "f_recip (Finite x) = fdiv 1 x"
| "f_recip PInf = Finite 0"
| "f_recip NInf = Finite 0"
| "f_recip NaN = NaN"

text \<open>The product of a finite number and a scale factor.\<close>

fun f_scale :: "real \<Rightarrow> fval \<Rightarrow> fval" where
  "f_scale x (Finite s) = Finite (x * s)"
| "f_scale x PInf = (if x = 0 then NaN else if 0 < x then PInf else NInf)"
| "f_scale x NInf = (if x = 0 then NaN else if 0 < x then NInf else PInf)"
| "f_scale x NaN = NaN"

text \<open>
  Modelled from the spec: \<^verbatim>\<open>convert_power_to_dB\<close> is not among the sources; the
  spec says "then convert to dB", that is \<open>10 log\<^sub>1\<^sub>0\<close>.
\<close>

fun convert_power_to_dB :: "fval \<Rightarrow> fval" where
  "convert_power_to_dB (Finite x) =
     (if x < 0 then NaN else if x = 0 then NInf else Finite (10 * log 10 x))"
| "convert_power_to_dB PInf = PInf"
| "convert_power_to_dB NInf = NaN"
| "convert_power_to_dB NaN = NaN"

text \<open>
  \<^verbatim>\<open>std::numeric_limits<double>::min()\<close> is the smallest positive normal double,
  \<open>2\<^sup>-\<^sup>1\<^sup>0\<^sup>2\<^sup>2\<close>; \<^verbatim>\<open>std::numeric_limits<double>::max()\<close> is the largest finite one.
\<close>

definition numeric_limits_double_min :: real where
  "numeric_limits_double_min = 1 / 2 ^ 1022"

definition numeric_limits_double_max :: real where
  "numeric_limits_double_max = (2 ^ 53 - 1) * 2 ^ 971"

text \<open>\<^verbatim>\<open>std::round\<close>: to the nearest integer, halfway cases away from zero.\<close>

definition c_round :: "real \<Rightarrow> int" where
  "c_round x = (if 0 \<le> x then \<lfloor>x + 1 / 2\<rfloor> else \<lceil>x - 1 / 2\<rceil>)"

subsection \<open>Rounding to a binary format\<close>

text \<open>
  Rounding to the nearest number of a binary floating-point format with \<open>p\<close>
  significant bits whose smallest unit in the last place is \<open>2\<^sup>e\<^sup>m\<^sup>i\<^sup>n\<close>, halfway cases
  to the even significand (the default rounding of IEEE-754). The exponent is not
  bounded above: where the source overflows to infinity the rounded value here is at
  least \<open>2\<^sup>1\<^sup>2\<^sup>8\<close> (binary32), which the definitions below test.
\<close>

definition pow2 :: "int \<Rightarrow> real" where
  "pow2 e = (if 0 \<le> e then 2 ^ nat e else 1 / 2 ^ nat (- e))"

definition round_even :: "real \<Rightarrow> int" where
  "round_even x =
     (let f = \<lfloor>x\<rfloor>; d = x - of_int f
      in if d < 1 / 2 then f
         else if 1 / 2 < d then f + 1
         else if even f then f else f + 1)"

definition fl_round :: "nat \<Rightarrow> int \<Rightarrow> real \<Rightarrow> real" where
  "fl_round p emin x =
     (if x = 0 then 0
      else let e = max (\<lfloor>log 2 \<bar>x\<bar>\<rfloor> - int p + 1) emin
           in of_int (round_even (x / pow2 e)) * pow2 e)"

text \<open>binary32 (\<^verbatim>\<open>float\<close>) and binary64 (\<^verbatim>\<open>double\<close>).\<close>

definition fl32 :: "real \<Rightarrow> real" where
  "fl32 x = fl_round 24 (- 149) x"

definition fl64 :: "real \<Rightarrow> real" where
  "fl64 x = fl_round 53 (- 1074) x"

text \<open>
  Modelled from the spec: the constant \<^verbatim>\<open>TWOPI\<close> is declared in a header that is
  not among the sources; the spec writes it "2\<pi>". The source uses it as an operand of
  \<^verbatim>\<open>float\<close> arithmetic, so it is taken as the single-precision constant, the binary32
  number nearest to \<open>2\<pi>\<close>, \<open>13176795 \<times> 2\<^sup>-\<^sup>2\<^sup>1\<close>.
\<close>

definition twopi32 :: real where
  "twopi32 = 13176795 / 2 ^ 21"

section \<open>Vector operations\<close>

text \<open>
  Modelled from the spec: the \<^verbatim>\<open>srsvec\<close> library is not among the sources. Its
  operations are element-wise on spans of one size (the library asserts the sizes);
  the spec names the mean ("arithmetic mean ... over subcarriers") and the average
  power. On spans of different sizes the list functions below stop at the shorter one,
  where the library fails its assertion; the theorems below fix the sizes.
\<close>

definition srsvec_add :: "complex list \<Rightarrow> complex list \<Rightarrow> complex list" where
  "srsvec_add x y = map2 (+) x y"

definition srsvec_subtract :: "complex list \<Rightarrow> complex list \<Rightarrow> complex list" where
  "srsvec_subtract x y = map2 (-) x y"

definition srsvec_prod :: "complex list \<Rightarrow> complex list \<Rightarrow> complex list" where
  "srsvec_prod x y = map2 (*) x y"

definition srsvec_prod_conj :: "complex list \<Rightarrow> complex list \<Rightarrow> complex list" where
  "srsvec_prod_conj x y = map2 (\<lambda>a b. a * cnj b) x y"

definition srsvec_sc_prod :: "complex list \<Rightarrow> complex \<Rightarrow> complex list" where
  "srsvec_sc_prod x h = map (\<lambda>a. a * h) x"

text \<open>The mean of an empty span is \<open>0 / 0\<close> in the source; here it is 0.\<close>

definition srsvec_mean :: "complex list \<Rightarrow> complex" where
  "srsvec_mean x = sum_list x / of_nat (length x)"

definition srsvec_average_power :: "complex list \<Rightarrow> real" where
  "srsvec_average_power x =
     (if x = [] then 0 else (\<Sum>a\<leftarrow>x. (cmod a)\<^sup>2) / real (length x))"

text \<open>\<^verbatim>\<open>std::norm\<close> of a complex number: the squared magnitude.\<close>

definition std_norm :: "complex \<Rightarrow> real" where
  "std_norm c = (Re c)\<^sup>2 + (Im c)\<^sup>2"

section \<open>Phase-shift compensation\<close>

text \<open>
  \<^verbatim>\<open>compensate_phase_shift\<close>: the phase index of element \<open>n\<close> is
  \<^verbatim>\<open>static_cast<int>(std::round(static_cast<float>(cexp_table_size) * (static_cast<float>(n++) * phase_shift_subcarrier + phase_shift_offset) / TWOPI))\<close>,
  every operand a \<^verbatim>\<open>float\<close>: the product, the sum, the second product and the
  quotient are each rounded to binary32. \<^verbatim>\<open>std::round\<close> of a \<^verbatim>\<open>float\<close> is exact.
  The conversion to \<^verbatim>\<open>int\<close> is undefined in the source when a rounded operation has
  overflowed or the rounded value is outside the range of \<^verbatim>\<open>int\<close>: \<open>None\<close>.
\<close>

definition phase_index_checked :: "nat \<Rightarrow> real \<Rightarrow> real \<Rightarrow> nat \<Rightarrow> int option" where
  "phase_index_checked table_size phase_shift_subcarrier phase_shift_offset n =
     (let a = fl32 (fl32 (real n) * phase_shift_subcarrier);
          b = fl32 (a + phase_shift_offset);
          c = fl32 (fl32 (real table_size) * b);
          d = fl32 (c / twopi32);
          r = c_round d
      in if 2 ^ 128 \<le> \<bar>a\<bar> \<or> 2 ^ 128 \<le> \<bar>b\<bar> \<or> 2 ^ 128 \<le> \<bar>c\<bar> \<or> 2 ^ 128 \<le> \<bar>d\<bar>
            \<or> r < - (2 ^ 31) \<or> 2 ^ 31 \<le> r
         then None else Some r)"

text \<open>
  The index is stored in a span of \<^verbatim>\<open>unsigned\<close>: a negative index becomes its
  residue modulo \<open>2\<^sup>3\<^sup>2\<close>. Where the conversion is undefined the model takes the index
  0; no theorem below speaks about an index in that case.
\<close>

definition phase_index :: "nat \<Rightarrow> real \<Rightarrow> real \<Rightarrow> nat \<Rightarrow> 32 word" where
  "phase_index table_size phase_shift_subcarrier phase_shift_offset n =
     (case phase_index_checked table_size phase_shift_subcarrier phase_shift_offset n of
        None \<Rightarrow> 0
      | Some r \<Rightarrow> word_of_int r)"

text \<open>
  Modelled from the spec: \<^verbatim>\<open>complex_exponential_table\<close> is not among the sources.
  The table holds \<^verbatim>\<open>cexp_table_size\<close> values and \<^verbatim>\<open>generate\<close> reads, for each
  index, the entry at the index modulo the table size ("mapped to a table index by
  round(table_size \<times> phase/(2\<pi>)) mod table_size").
\<close>

definition cexp_table_generate :: "complex list \<Rightarrow> 32 word list \<Rightarrow> complex list" where
  "cexp_table_generate table indices = map (\<lambda>i. table ! (unat i mod length table)) indices"

definition compensate_phase_shift ::
  "complex list \<Rightarrow> complex list \<Rightarrow> real \<Rightarrow> real \<Rightarrow> complex list" where
  "compensate_phase_shift table mean_lse phase_shift_subcarrier phase_shift_offset =
     (let sequence_length = length mean_lse;
          phase_indices =
            map (phase_index (length table) phase_shift_subcarrier phase_shift_offset)
              [0..<sequence_length];
          cexp = cexp_table_generate table phase_indices
      in srsvec_prod mean_lse cexp)"

section \<open>Requests, collaborators and results\<close>

text \<open>
  The fields of \<^verbatim>\<open>srs_resource_configuration\<close> that \<^verbatim>\<open>estimate\<close> reads itself;
  the others reach it only through \<^verbatim>\<open>get_srs_information\<close>.
\<close>

record srs_resource_configuration =
  nof_antenna_ports :: nat
  nof_symbols :: nat
  start_symbol :: nat
  comb_size :: nat

text \<open>
  \<^verbatim>\<open>srs_estimator_configuration\<close>. The optional \<^verbatim>\<open>context\<close> is kept as the text
  that \<^verbatim>\<open>fmt::format("{}", config.context.value())\<close> prints for it, the only way
  \<^verbatim>\<open>estimate\<close> looks at it.
\<close>

record srs_estimator_configuration =
  resource :: srs_resource_configuration
  numerology :: nat
  ports :: "nat list"
  context_opt :: "string option"

record srs_information =
  sequence_length :: nat
  sequence_group :: nat
  sequence_number :: nat
  n_cs :: nat
  n_cs_max :: nat
  mapping_initial_subcarrier :: nat
  info_comb_size :: nat

record time_alignment_measurement =
  time_alignment :: real
  resolution :: real
  ta_min :: real
  ta_max :: real

text \<open>
  The collaborators of the estimator, none of them among the sources, are parameters:
  \<^verbatim>\<open>get_srs_information\<close>, the low-PAPR sequence generator (the value at each index
  of the sequence of a given length), the time-alignment estimator and the table of
  complex exponentials. \<open>file_opens\<close> says whether the stream of the diagnostic
  collector opens at a pair of ports.
\<close>

record srs_dependencies =
  get_srs_information :: "srs_resource_configuration \<Rightarrow> nat \<Rightarrow> srs_information"
  sequence_generator :: "nat \<Rightarrow> nat \<Rightarrow> nat \<Rightarrow> nat \<Rightarrow> nat \<Rightarrow> nat \<Rightarrow> complex"
  ta_estimator :: "complex list list \<Rightarrow> nat \<Rightarrow> nat \<Rightarrow> fval \<Rightarrow> time_alignment_measurement"
  cexp_table :: "complex list"
  file_opens :: "nat \<Rightarrow> nat \<Rightarrow> bool"

text \<open>
  Modelled from the spec: the resource grid reader is not among the sources. It
  "returns the complex samples received on a comb-sampled set of subcarriers for one OFDM
  symbol, one receive antenna": \<^verbatim>\<open>grid.get(span, port, symbol, k_init, stride)\<close> fills
  the span, whose size is the first argument here.
\<close>

type_synonym resource_grid_reader = "nat \<Rightarrow> nat \<Rightarrow> nat \<Rightarrow> complex"

definition grid_get :: "resource_grid_reader \<Rightarrow> nat \<Rightarrow> nat \<Rightarrow> nat \<Rightarrow> nat \<Rightarrow> nat \<Rightarrow> complex list" where
  "grid_get grid len port i_symbol k_init stride =
     map (\<lambda>i. grid port i_symbol (k_init + i * stride)) [0..<len]"

definition generate_sequence :: "srs_dependencies \<Rightarrow> nat \<Rightarrow> srs_information \<Rightarrow> complex list" where
  "generate_sequence deps len info =
     map (sequence_generator deps len (sequence_group info) (sequence_number info)
            (n_cs info) (n_cs_max info)) [0..<len]"

text \<open>
  Modelled from the spec: \<^verbatim>\<open>to_subcarrier_spacing\<close> and \<^verbatim>\<open>scs_to_khz\<close> are not
  among the sources; the spec names their result only as the subcarrier spacing in Hz.
  For numerology \<open>\<mu>\<close> it is \<open>15 \<times> 2\<^sup>\<mu>\<close> kHz.
\<close>

definition scs_to_khz :: "nat \<Rightarrow> nat" where
  "scs_to_khz mu = 15 * 2 ^ mu"

text \<open>
  Modelled from the spec: \<^verbatim>\<open>srs_channel_matrix\<close> is not among the sources; it is "a
  dense matrix of complex coefficients indexed by (receive-port, transmit-port)". Here
  it is the list of its rows, one per receive port, created with zero coefficients. The
  loops of \<^verbatim>\<open>estimate\<close> write only at indices inside the matrix; a write outside,
  which the source refuses by assertion, leaves the list as it is.
\<close>

definition srs_channel_matrix :: "nat \<Rightarrow> nat \<Rightarrow> complex list list" where
  "srs_channel_matrix nof_rx_ports nof_tx_ports = replicate nof_rx_ports (replicate nof_tx_ports 0)"

definition set_coefficient :: "complex list list \<Rightarrow> complex \<Rightarrow> nat \<Rightarrow> nat \<Rightarrow> complex list list" where
  "set_coefficient m coefficient i_rx_port i_tx_port =
     m[i_rx_port := (m ! i_rx_port)[i_tx_port := coefficient]]"

record srs_estimator_result =
  channel_matrix :: "(fval \<times> fval) list list"
  result_time_alignment :: time_alignment_measurement
  noise_variance :: fval
  epre_dB :: fval
  rsrp_dB :: fval

section \<open>The diagnostic collector\<close>

text \<open>
  The block under \<^verbatim>\<open>SRS_CSI_COLLECTION_MODE == 1\<close> finds the RNTI in the formatted
  context: \<^verbatim>\<open>find("rnti=0x")\<close>, \<^verbatim>\<open>substr(rnti_pos + 7)\<close>, \<^verbatim>\<open>std::stoul(..., 16)\<close>
  and the conversion to \<^verbatim>\<open>uint16_t\<close>. \<^verbatim>\<open>std::stoul\<close> skips white space, takes a
  sign and a \<^verbatim>\<open>0x\<close> prefix, reads the hexadecimal digits and throws when there is no
  digit or the number does not fit \<^verbatim>\<open>unsigned long\<close> (64 bits); \<open>None\<close> is the
  exception.
\<close>

fun str_find :: "string \<Rightarrow> string \<Rightarrow> nat option" where
  "str_find pat [] = (if pat = [] then Some 0 else None)"
| "str_find pat (c # cs) =
     (if take (length pat) (c # cs) = pat then Some 0
      else map_option Suc (str_find pat cs))"

definition is_space :: "char \<Rightarrow> bool" where
  "is_space c = (let n = (of_char c :: nat) in n = 32 \<or> (9 \<le> n \<and> n \<le> 13))"

definition hex_digit :: "char \<Rightarrow> nat option" where
  "hex_digit c =
     (let n = (of_char c :: nat) in
      if 48 \<le> n \<and> n \<le> 57 then Some (n - 48)
      else if 97 \<le> n \<and> n \<le> 102 then Some (n - 87)
      else if 65 \<le> n \<and> n \<le> 70 then Some (n - 55)
      else None)"

definition is_hex :: "char \<Rightarrow> bool" where
  "is_hex c = (hex_digit c \<noteq> None)"

fun strip_sign :: "string \<Rightarrow> bool \<times> string" where
  "strip_sign [] = (False, [])"
| "strip_sign (c # cs) =
     (if c = CHR ''-'' then (True, cs)
      else if c = CHR ''+'' then (False, cs)
      else (False, c # cs))"

fun strip_0x :: "string \<Rightarrow> string" where
  "strip_0x (z # x # d # cs) =
     (if z = CHR ''0'' \<and> (x = CHR ''x'' \<or> x = CHR ''X'') \<and> is_hex d then d # cs
      else z # x # d # cs)"
| "strip_0x cs = cs"

definition hex_value :: "string \<Rightarrow> nat" where
  "hex_value ds = foldl (\<lambda>a c. 16 * a + the (hex_digit c)) 0 ds"

definition stoul16 :: "string \<Rightarrow> nat option" where
  "stoul16 str =
     (let (negative, s2) = strip_sign (dropWhile is_space str);
          ds = takeWhile is_hex (strip_0x s2)
      in if ds = [] then None
         else if 2 ^ 64 \<le> hex_value ds then None
         else Some (if negative then (2 ^ 64 - hex_value ds) mod 2 ^ 64 else hex_value ds))"

definition extract_rnti :: "string option \<Rightarrow> 16 word option" where
  "extract_rnti c =
     (case c of
        None \<Rightarrow> None
      | Some context_str \<Rightarrow>
          (case str_find ''rnti=0x'' context_str of
             None \<Rightarrow> None
           | Some rnti_pos \<Rightarrow>
               (case stoul16 (drop (rnti_pos + 7) context_str) of
                  None \<Rightarrow> None
                | Some v \<Rightarrow>
                    (let rnti_value = (of_nat v :: 16 word)
                     in if rnti_value = 0 then None else Some rnti_value))))"

text \<open>
  One record of the collector: the header without its time stamp (RNTI, receive port,
  transmit port, number of tones, each a \<^verbatim>\<open>uint16_t\<close>) and the samples
  (subcarrier, symbol, value).
\<close>

record csi_record =
  csi_rnti :: "16 word"
  csi_rx_port :: "16 word"
  csi_tx_port :: "16 word"
  csi_num_tones :: "16 word"
  csi_samples :: "(16 word \<times> 16 word \<times> complex) list"

definition csi_entry ::
  "srs_estimator_configuration \<Rightarrow> srs_information \<Rightarrow> 16 word \<Rightarrow> nat \<Rightarrow> nat \<Rightarrow> complex list \<Rightarrow> csi_record" where
  "csi_entry config info rnti_value i_rx_port i_antenna_port mean_lse =
     \<lparr>csi_rnti = rnti_value,
      csi_rx_port = of_nat i_rx_port,
      csi_tx_port = of_nat i_antenna_port,
      csi_num_tones = of_nat (length mean_lse),
      csi_samples =
        map (\<lambda>tone_idx.
               (of_nat (mapping_initial_subcarrier info + tone_idx * comb_size (resource config)),
                of_nat (start_symbol (resource config)),
                mean_lse ! tone_idx))
          [0..<length mean_lse]\<rparr>"

text \<open>
  The outcome of the block at one pair of ports: \<open>None\<close> when it leaves the iteration
  with \<^verbatim>\<open>continue\<close>, otherwise the log, with one more record when the file opened.
  The counters of the collector, the rotation of its files and the exceptions of the
  file system are outside the model: they do not enter the value that \<^verbatim>\<open>estimate\<close>
  returns.
\<close>

definition csi_collect ::
  "srs_dependencies \<Rightarrow> srs_estimator_configuration \<Rightarrow> srs_information \<Rightarrow> nat \<Rightarrow> nat \<Rightarrow>
     complex list \<Rightarrow> csi_record list \<Rightarrow> csi_record list option" where
  "csi_collect deps config info i_rx_port i_antenna_port mean_lse lg =
     (case extract_rnti (context_opt config) of
        None \<Rightarrow> None
      | Some rnti_value \<Rightarrow>
          Some (if file_opens deps i_rx_port i_antenna_port
                then lg @ [csi_entry config info rnti_value i_rx_port i_antenna_port mean_lse]
                else lg))"

section \<open>The estimator\<close>

text \<open>
  The local variables of \<^verbatim>\<open>estimate\<close> that its loops update: the tensors
  \<^verbatim>\<open>temp_lse\<close> (a view per receive-port index and transmit port), \<^verbatim>\<open>temp_noise\<close>
  (a view per parity and receive-port index) and \<^verbatim>\<open>all_sequences\<close>, the accumulators
  \<^verbatim>\<open>epre\<close>, \<^verbatim>\<open>rsrp\<close> and \<^verbatim>\<open>noise_var\<close>, the time alignment and the channel
  matrix of the result, and the records the diagnostic collector has written.
\<close>

record estimator_state =
  temp_lse :: "nat \<times> nat \<Rightarrow> complex list"
  temp_noise :: "nat \<times> nat \<Rightarrow> complex list"
  all_sequences :: "nat \<Rightarrow> complex list"
  epre :: real
  ta :: time_alignment_measurement
  chan :: "complex list list"
  rsrp :: real
  noise_var :: real
  csi_log :: "csi_record list"

definition interleaved_pilots :: "srs_dependencies \<Rightarrow> srs_estimator_configuration \<Rightarrow> bool" where
  "interleaved_pilots deps config =
     (let info_port0 = get_srs_information deps (resource config) 0
      in nof_antenna_ports (resource config) = 4 \<and> n_cs_max info_port0 div 2 \<le> n_cs info_port0)"

definition common_sequence_length :: "srs_dependencies \<Rightarrow> srs_estimator_configuration \<Rightarrow> nat" where
  "common_sequence_length deps config = sequence_length (get_srs_information deps (resource config) 0)"

text \<open>
  \<^verbatim>\<open>max_ta = 1.0 / static_cast<double>(n_cs_max * scs_to_khz(scs) * 1000 * comb_size)\<close>,
  the product in \<^verbatim>\<open>unsigned\<close> arithmetic.
\<close>

definition max_ta :: "srs_dependencies \<Rightarrow> srs_estimator_configuration \<Rightarrow> fval" where
  "max_ta deps config =
     fdiv 1 (real (unat ((of_nat (n_cs_max (get_srs_information deps (resource config) 0))
                          * of_nat (scs_to_khz (numerology config)) * 1000
                          * of_nat (comb_size (resource config))) :: 32 word)))"

definition initial_state :: "srs_dependencies \<Rightarrow> srs_estimator_configuration \<Rightarrow> estimator_state" where
  "initial_state deps config =
     (let sequence_length = common_sequence_length deps config
      in \<lparr>temp_lse = (\<lambda>v. replicate sequence_length 0),
          temp_noise = (\<lambda>v. replicate sequence_length 0),
          all_sequences = (\<lambda>v. replicate sequence_length 0),
          epre = 0,
          ta = \<lparr>time_alignment = 0, resolution = 0,
                ta_min = numeric_limits_double_min, ta_max = numeric_limits_double_max\<rparr>,
          chan = srs_channel_matrix (length (ports config)) (nof_antenna_ports (resource config)),
          rsrp = 0,
          noise_var = 0,
          csi_log = []\<rparr>)"

subsection \<open>The first loop: least-squares estimates and time alignment\<close>

text \<open>
  The body of the loop over the OFDM symbols, on the views \<^verbatim>\<open>mean_lse\<close> and
  \<^verbatim>\<open>noise_help\<close> and the accumulator \<^verbatim>\<open>epre\<close>.
\<close>

definition symbol_step ::
  "resource_grid_reader \<Rightarrow> srs_estimator_configuration \<Rightarrow> bool \<Rightarrow> nat \<Rightarrow> srs_information \<Rightarrow> nat \<Rightarrow>
     nat \<Rightarrow> complex list \<times> complex list \<times> real \<Rightarrow> complex list \<times> complex list \<times> real" where
  "symbol_step grid config interleaved i_antenna_port info i_rx_port i_symbol st =
     (case st of (mean_lse, noise_help, epre_acc) \<Rightarrow>
        (let rx_sequence = grid_get grid (sequence_length info) i_rx_port i_symbol
                             (mapping_initial_subcarrier info) (info_comb_size info);
             accumulate = (i_antenna_port = 0 \<or> (interleaved \<and> i_antenna_port = 1));
             noise_help' = (if accumulate then srsvec_add noise_help rx_sequence else noise_help);
             epre' = (if accumulate then epre_acc + srsvec_average_power rx_sequence else epre_acc);
             mean_lse' = (if i_symbol = start_symbol (resource config) then rx_sequence
                          else srsvec_add mean_lse rx_sequence)
         in (mean_lse', noise_help', epre')))"

definition noise_parity :: "bool \<Rightarrow> nat \<Rightarrow> nat" where
  "noise_parity interleaved i_antenna_port = (if interleaved then i_antenna_port mod 2 else 0)"

text \<open>The body of the loop over the receive ports, for one transmit port.\<close>

definition lse_rx_step ::
  "resource_grid_reader \<Rightarrow> srs_estimator_configuration \<Rightarrow> bool \<Rightarrow> nat \<Rightarrow> srs_information \<Rightarrow>
     complex list \<Rightarrow> nat \<Rightarrow> estimator_state \<Rightarrow> estimator_state" where
  "lse_rx_step grid config interleaved i_antenna_port info sequence i_rx_port_index s =
     (let i_rx_port = ports config ! i_rx_port_index;
          nsym = nof_symbols (resource config);
          first = start_symbol (resource config);
          parity = noise_parity interleaved i_antenna_port;
          (summed, noise_help, epre') =
             fold (symbol_step grid config interleaved i_antenna_port info i_rx_port)
               [first..<first + nsym]
               (temp_lse s (i_rx_port_index, i_antenna_port),
                temp_noise s (parity, i_rx_port_index),
                epre s);
          lse = srsvec_prod_conj summed sequence;
          mean_lse = (if 1 < nsym then srsvec_sc_prod lse (complex_of_real (1 / real nsym)) else lse)
      in s\<lparr>temp_lse := (temp_lse s)((i_rx_port_index, i_antenna_port) := mean_lse),
           temp_noise := (temp_noise s)((parity, i_rx_port_index) := noise_help),
           epre := epre'\<rparr>)"

text \<open>Combining the measurement of one transmit port with the running result.\<close>

definition combine_ta ::
  "time_alignment_measurement \<Rightarrow> time_alignment_measurement \<Rightarrow> time_alignment_measurement" where
  "combine_ta acc ta_meas =
     \<lparr>time_alignment = time_alignment acc + time_alignment ta_meas,
      resolution = max (resolution acc) (resolution ta_meas),
      ta_min = max (ta_min acc) (ta_min ta_meas),
      ta_max = min (ta_max acc) (ta_max ta_meas)\<rparr>"

text \<open>
  The body of the loop over the transmit ports, in two parts: the pilot sequence and
  the loop over the receive ports, then the call of the time-alignment estimator on the
  least-squares estimates of the port.
\<close>

definition lse_port_state ::
  "srs_dependencies \<Rightarrow> resource_grid_reader \<Rightarrow> srs_estimator_configuration \<Rightarrow> nat \<Rightarrow>
     estimator_state \<Rightarrow> estimator_state" where
  "lse_port_state deps grid config i_antenna_port s =
     (let interleaved = interleaved_pilots deps config;
          info = get_srs_information deps (resource config) i_antenna_port;
          sequence = generate_sequence deps (common_sequence_length deps config) info;
          s1 = s\<lparr>all_sequences := (all_sequences s)(i_antenna_port := sequence)\<rparr>
      in fold (lse_rx_step grid config interleaved i_antenna_port info sequence)
           [0..<length (ports config)] s1)"

definition port_ta_measurement ::
  "srs_dependencies \<Rightarrow> srs_estimator_configuration \<Rightarrow> nat \<Rightarrow> estimator_state \<Rightarrow>
     time_alignment_measurement" where
  "port_ta_measurement deps config i_antenna_port s =
     (let info = get_srs_information deps (resource config) i_antenna_port;
          port_lse = map (\<lambda>i_rx_port_index. temp_lse s (i_rx_port_index, i_antenna_port))
                       [0..<length (ports config)]
      in ta_estimator deps port_lse (info_comb_size info) (scs_to_khz (numerology config))
           (max_ta deps config))"

definition lse_tx_step ::
  "srs_dependencies \<Rightarrow> resource_grid_reader \<Rightarrow> srs_estimator_configuration \<Rightarrow> nat \<Rightarrow>
     estimator_state \<Rightarrow> estimator_state" where
  "lse_tx_step deps grid config i_antenna_port s =
     (let s2 = lse_port_state deps grid config i_antenna_port s
      in s2\<lparr>ta := combine_ta (ta s2) (port_ta_measurement deps config i_antenna_port s2)\<rparr>)"

text \<open>
  The measurement that the time-alignment estimator returns for a transmit port during
  a run of \<^verbatim>\<open>estimate\<close>.
\<close>

definition ta_measurement ::
  "srs_dependencies \<Rightarrow> resource_grid_reader \<Rightarrow> srs_estimator_configuration \<Rightarrow> nat \<Rightarrow>
     time_alignment_measurement" where
  "ta_measurement deps grid config i_antenna_port =
     port_ta_measurement deps config i_antenna_port
       (lse_port_state deps grid config i_antenna_port
          (fold (lse_tx_step deps grid config) [0..<i_antenna_port] (initial_state deps config)))"

text \<open>
  The state after the first loop and the division of the accumulated time alignment by
  the number of transmit ports (an enumeration of 1, 2 and 4 in the source, never 0).
\<close>

definition lse_stage ::
  "srs_dependencies \<Rightarrow> resource_grid_reader \<Rightarrow> srs_estimator_configuration \<Rightarrow> estimator_state" where
  "lse_stage deps grid config =
     (let s = fold (lse_tx_step deps grid config) [0..<nof_antenna_ports (resource config)]
                (initial_state deps config)
      in s\<lparr>ta := (ta s)\<lparr>time_alignment :=
              time_alignment (ta s) / real (nof_antenna_ports (resource config))\<rparr>\<rparr>)"

subsection \<open>The second loop: compensation, coefficients and noise\<close>

text \<open>
  \<^verbatim>\<open>static_cast<float>(TWOPI * result.time_alignment.time_alignment * scs_to_khz(scs) * 1000 * comb_size)\<close>:
  the products from left to right in \<^verbatim>\<open>double\<close>, then the conversion to
  \<^verbatim>\<open>float\<close>.
\<close>

definition phase_shift_subcarrier :: "srs_estimator_configuration \<Rightarrow> estimator_state \<Rightarrow> real" where
  "phase_shift_subcarrier config s =
     fl32 (fl64 (fl64 (fl64 (fl64 (twopi32 * time_alignment (ta s))
                               * real (scs_to_khz (numerology config)))
                         * 1000)
                   * real (comb_size (resource config))))"

text \<open>
  \<^verbatim>\<open>phase_shift_subcarrier * static_cast<float>(info.mapping_initial_subcarrier) / static_cast<float>(comb_size)\<close>
  in \<^verbatim>\<open>float\<close>.
\<close>

definition phase_shift_offset :: "srs_estimator_configuration \<Rightarrow> srs_information \<Rightarrow> estimator_state \<Rightarrow> real" where
  "phase_shift_offset config info s =
     fl32 (fl32 (phase_shift_subcarrier config s * fl32 (real (mapping_initial_subcarrier info)))
           / fl32 (real (comb_size (resource config))))"

text \<open>
  The body of the loop over the transmit ports, for one receive port. The diagnostic
  block stands between the compensation of \<^verbatim>\<open>mean_lse\<close> and the computation of the
  coefficient; each \<^verbatim>\<open>continue\<close> in it ends the iteration there.
\<close>

definition coef_tx_step ::
  "srs_dependencies \<Rightarrow> srs_estimator_configuration \<Rightarrow> nat \<Rightarrow> nat \<Rightarrow> estimator_state \<Rightarrow> estimator_state" where
  "coef_tx_step deps config i_rx_port i_antenna_port s =
     (let interleaved = interleaved_pilots deps config;
          info = get_srs_information deps (resource config) i_antenna_port;
          pss = phase_shift_subcarrier config s;
          pso = phase_shift_offset config info s;
          mean_lse = compensate_phase_shift (cexp_table deps)
                       (temp_lse s (i_rx_port, i_antenna_port)) pss pso;
          s1 = s\<lparr>temp_lse := (temp_lse s)((i_rx_port, i_antenna_port) := mean_lse)\<rparr>
      in case csi_collect deps config info i_rx_port i_antenna_port mean_lse (csi_log s1) of
           None \<Rightarrow> s1
         | Some lg \<Rightarrow>
             (let coefficient = srsvec_mean mean_lse;
                  parity = noise_parity interleaved i_antenna_port;
                  noise_help = temp_noise s1 (parity, i_rx_port);
                  noise_help1 =
                    (if i_antenna_port = 0 \<or> (interleaved \<and> i_antenna_port = 1)
                     then compensate_phase_shift (cexp_table deps) noise_help pss pso
                     else noise_help);
                  recovered_signal =
                    srsvec_sc_prod (all_sequences s1 i_antenna_port)
                      (of_nat (nof_symbols (resource config)) * coefficient)
              in s1\<lparr>csi_log := lg,
                    chan := set_coefficient (chan s1) coefficient i_rx_port i_antenna_port,
                    rsrp := rsrp s1 + std_norm coefficient,
                    temp_noise := (temp_noise s1)((parity, i_rx_port) :=
                                    srsvec_subtract noise_help1 recovered_signal)\<rparr>))"

text \<open>The body of the loop over the receive ports.\<close>

definition coef_rx_step ::
  "srs_dependencies \<Rightarrow> srs_estimator_configuration \<Rightarrow> nat \<Rightarrow> estimator_state \<Rightarrow> estimator_state" where
  "coef_rx_step deps config i_rx_port s =
     (let s1 = fold (coef_tx_step deps config i_rx_port) [0..<nof_antenna_ports (resource config)] s;
          noise_help0 = temp_noise s1 (0, i_rx_port);
          nv0 = noise_var s1 + srsvec_average_power noise_help0 * real (length noise_help0);
          noise_help1 = temp_noise s1 (1, i_rx_port);
          nv1 = (if interleaved_pilots deps config
                 then nv0 + srsvec_average_power noise_help1 * real (length noise_help1)
                 else nv0)
      in s1\<lparr>noise_var := nv1\<rparr>)"

definition coef_stage ::
  "srs_dependencies \<Rightarrow> resource_grid_reader \<Rightarrow> srs_estimator_configuration \<Rightarrow> estimator_state" where
  "coef_stage deps grid config =
     fold (coef_rx_step deps config) [0..<length (ports config)] (lse_stage deps grid config)"

subsection \<open>Normalisation\<close>

definition nof_estimates :: "srs_dependencies \<Rightarrow> srs_estimator_configuration \<Rightarrow> nat" where
  "nof_estimates deps config =
     (if interleaved_pilots deps config then 2 else nof_antenna_ports (resource config))"

definition correction_factor :: "srs_dependencies \<Rightarrow> srs_estimator_configuration \<Rightarrow> nat" where
  "correction_factor deps config = (if interleaved_pilots deps config then 2 else 1)"

text \<open>
  \<^verbatim>\<open>(nof_symbols * sequence_length - nof_estimates) * correction_factor * nof_rx_ports\<close>
  in \<^verbatim>\<open>unsigned\<close> arithmetic.
\<close>

definition noise_divisor :: "srs_dependencies \<Rightarrow> srs_estimator_configuration \<Rightarrow> 32 word" where
  "noise_divisor deps config =
     (of_nat (nof_symbols (resource config)) * of_nat (common_sequence_length deps config)
        - of_nat (nof_estimates deps config))
       * of_nat (correction_factor deps config) * of_nat (length (ports config))"

definition epre_divisor :: "srs_dependencies \<Rightarrow> srs_estimator_configuration \<Rightarrow> 32 word" where
  "epre_divisor deps config =
     of_nat (nof_symbols (resource config)) * of_nat (correction_factor deps config)
       * of_nat (length (ports config))"

definition rsrp_divisor :: "srs_estimator_configuration \<Rightarrow> 32 word" where
  "rsrp_divisor config = of_nat (nof_antenna_ports (resource config)) * of_nat (length (ports config))"

definition normalized_noise_var ::
  "srs_dependencies \<Rightarrow> resource_grid_reader \<Rightarrow> srs_estimator_configuration \<Rightarrow> fval" where
  "normalized_noise_var deps grid config =
     fdiv (noise_var (coef_stage deps grid config)) (real (unat (noise_divisor deps config)))"

text \<open>
  \<^verbatim>\<open>noise_std = std::max(std::sqrt(noise_var), std::sqrt(rsrp) * 0.01F)\<close>: at this line
  \<^verbatim>\<open>noise_var\<close> has been divided and \<^verbatim>\<open>rsrp\<close> is still the sum over the pairs of
  ports.
\<close>

definition noise_std ::
  "srs_dependencies \<Rightarrow> resource_grid_reader \<Rightarrow> srs_estimator_configuration \<Rightarrow> fval" where
  "noise_std deps grid config =
     f_max (f_sqrt (normalized_noise_var deps grid config))
       (Finite (sqrt (rsrp (coef_stage deps grid config)) * (1 / 100)))"

definition normalized_epre ::
  "srs_dependencies \<Rightarrow> resource_grid_reader \<Rightarrow> srs_estimator_configuration \<Rightarrow> fval" where
  "normalized_epre deps grid config =
     fdiv (epre (coef_stage deps grid config)) (real (unat (epre_divisor deps config)))"

definition normalized_rsrp ::
  "srs_dependencies \<Rightarrow> resource_grid_reader \<Rightarrow> srs_estimator_configuration \<Rightarrow> fval" where
  "normalized_rsrp deps grid config =
     fdiv (rsrp (coef_stage deps grid config)) (real (unat (rsrp_divisor config)))"

text \<open>\<^verbatim>\<open>result.channel_matrix *= 1 / noise_std\<close>, on the real and imaginary parts.\<close>

definition scale_matrix :: "complex list list \<Rightarrow> fval \<Rightarrow> (fval \<times> fval) list list" where
  "scale_matrix m factor = map (map (\<lambda>c. (f_scale (Re c) factor, f_scale (Im c) factor))) m"

definition estimate ::
  "srs_dependencies \<Rightarrow> resource_grid_reader \<Rightarrow> srs_estimator_configuration \<Rightarrow> srs_estimator_result" where
  "estimate deps grid config =
     (let s = coef_stage deps grid config
      in \<lparr>channel_matrix = scale_matrix (chan s) (f_recip (noise_std deps grid config)),
          result_time_alignment = ta s,
          noise_variance = normalized_noise_var deps grid config,
          epre_dB = convert_power_to_dB (normalized_epre deps grid config),
          rsrp_dB = convert_power_to_dB (normalized_rsrp deps grid config)\<rparr>)"

section \<open>The quantities the specification names\<close>

text \<open>
  The least-squares buffer as the specification describes it: the comb-sampled values
  of the configured symbols, the first copied and the others added, times the conjugate
  of the pilot, scaled by \<open>1 / num_symbols\<close> exactly when more than one symbol is
  configured.
\<close>

definition lse_buffer ::
  "resource_grid_reader \<Rightarrow> srs_estimator_configuration \<Rightarrow> srs_information \<Rightarrow> complex list \<Rightarrow> nat \<Rightarrow>
     complex list" where
  "lse_buffer grid config info sq i_rx_port =
     (let first = start_symbol (resource config);
          nsym = nof_symbols (resource config)
      in map (\<lambda>k. (\<Sum>i = first..<first + nsym.
                      grid i_rx_port i (mapping_initial_subcarrier info + k * info_comb_size info))
                  * cnj (sq ! k)
                  * (if 1 < nsym then complex_of_real (1 / real nsym) else 1))
           [0..<sequence_length info])"

text \<open>
  What one receive port adds to \<^verbatim>\<open>noise_var\<close> after its loop over the transmit
  ports: the power of the noise-helper buffer of parity 0 and, with interleaved pilots,
  of parity 1.
\<close>

definition residual_power :: "bool \<Rightarrow> (nat \<times> nat \<Rightarrow> complex list) \<Rightarrow> nat \<Rightarrow> real" where
  "residual_power interleaved noise i_rx_port =
     srsvec_average_power (noise (0, i_rx_port)) * real (length (noise (0, i_rx_port)))
       + (if interleaved
          then srsvec_average_power (noise (1, i_rx_port)) * real (length (noise (1, i_rx_port)))
          else 0)"

section \<open>Structurally valid requests\<close>

text \<open>
  Modelled from the spec: the capacities of the scratch buffers are constants of
  headers that are not among the sources (\<^verbatim>\<open>srs_constants::max_nof_rx_ports\<close>,
  \<^verbatim>\<open>srs_constants::max_nof_tx_ports\<close>, \<^verbatim>\<open>max_seq_length\<close>); the spec says that the
  buffers are "sized for worst-case sequence length and port counts". Their values
  enter the theorems only as finite bounds.
\<close>

definition max_nof_rx_ports :: nat where
  "max_nof_rx_ports = 4"

definition max_nof_tx_ports :: nat where
  "max_nof_tx_ports = 4"

definition max_seq_length :: nat where
  "max_seq_length = 1650"

text \<open>
  Modelled from the spec: the validator \<^verbatim>\<open>srs_validator_generic_impl\<close> and
  \<^verbatim>\<open>get_srs_information\<close> are not among the sources. A request is structurally valid
  when the numbers of transmit ports and of symbols and the comb size are values of
  their enumerations, the symbols stay inside the slot of 14 symbols (the assertion at
  the head of \<^verbatim>\<open>estimate\<close>), the list of receive ports is "unique, bounded" and
  not empty (\<^verbatim>\<open>estimate\<close> divides by its length), and the sequence length, which is
  "shared by all ports/symbols in the request", fits the buffers and leaves more
  samples than estimated coefficients.
\<close>

definition valid_request :: "srs_dependencies \<Rightarrow> srs_estimator_configuration \<Rightarrow> bool" where
  "valid_request deps config =
     (nof_antenna_ports (resource config) \<in> {1, 2, 4} \<and>
      nof_symbols (resource config) \<in> {1, 2, 4} \<and>
      comb_size (resource config) \<in> {2, 4} \<and>
      start_symbol (resource config) + nof_symbols (resource config) \<le> 14 \<and>
      ports config \<noteq> [] \<and>
      distinct (ports config) \<and>
      length (ports config) \<le> max_nof_rx_ports \<and>
      common_sequence_length deps config \<le> max_seq_length \<and>
      nof_estimates deps config
        < nof_symbols (resource config) * common_sequence_length deps config \<and>
      list_all (\<lambda>p. sequence_length (get_srs_information deps (resource config) p)
                      = common_sequence_length deps config)
        [0..<nof_antenna_ports (resource config)])"

text \<open>
  Whether the diagnostic block leaves the iteration: no context, no \<^verbatim>\<open>rnti=0x\<close> in
  its text, no number after it, or an RNTI of zero.
\<close>

definition rnti_unavailable :: "string option \<Rightarrow> bool" where
  "rnti_unavailable c =
     (case c of
        None \<Rightarrow> True
      | Some context_str \<Rightarrow>
          (case str_find ''rnti=0x'' context_str of
             None \<Rightarrow> True
           | Some rnti_pos \<Rightarrow>
               (case stoul16 (drop (rnti_pos + 7) context_str) of
                  None \<Rightarrow> True
                | Some v \<Rightarrow> (of_nat v :: 16 word) = 0)))"

section \<open>A sounding occasion of four resource blocks\<close>

text \<open>
  Concrete requests on which the estimator is run below: comb size 4 over four resource
  blocks (twelve pilots per symbol), subcarrier spacing 15 kHz, a pilot sequence of ones
  for cyclic shift 0 and of alternating signs for any other cyclic shift, a grid that
  holds the same sample on every resource element, and a time-alignment estimator, by
  default one that measures no offset within \<open>\<plusminus>1 \<mu>s\<close>.
\<close>

definition occasion_info :: "srs_resource_configuration \<Rightarrow> nat \<Rightarrow> srs_information" where
  "occasion_info r p =
     \<lparr>sequence_length = 12, sequence_group = 0, sequence_number = 0,
      n_cs = (if p = 0 then 0 else 6), n_cs_max = 12,
      mapping_initial_subcarrier = 0, info_comb_size = 4\<rparr>"

definition occasion_ta :: "complex list list \<Rightarrow> time_alignment_measurement" where
  "occasion_ta port_lse =
     \<lparr>time_alignment = 0, resolution = 1 / 10 ^ 8,
      ta_min = - (1 / 10 ^ 6), ta_max = 1 / 10 ^ 6\<rparr>"

text \<open>
  A time-alignment estimator that measures a delay of 1 \<open>\<mu>s\<close> on the estimates of the
  pilot of ones and of 3 \<open>\<mu>s\<close> on the others, each within half a microsecond.
\<close>

definition two_delays_ta :: "complex list list \<Rightarrow> time_alignment_measurement" where
  "two_delays_ta port_lse =
     (if port_lse ! 0 ! 1 = 2
      then \<lparr>time_alignment = 1 / 10 ^ 6, resolution = 1 / 10 ^ 8,
            ta_min = 5 / 10 ^ 7, ta_max = 15 / 10 ^ 7\<rparr>
      else \<lparr>time_alignment = 3 / 10 ^ 6, resolution = 1 / 10 ^ 8,
            ta_min = 25 / 10 ^ 7, ta_max = 35 / 10 ^ 7\<rparr>)"

definition occasion_deps ::
  "(complex list list \<Rightarrow> time_alignment_measurement) \<Rightarrow> srs_dependencies" where
  "occasion_deps estimator =
     \<lparr>get_srs_information = occasion_info,
      sequence_generator = (\<lambda>len u v ncs ncs_max n. if ncs = 0 then 1 else (- 1) ^ n),
      ta_estimator = (\<lambda>port_lse comb scs mx. estimator port_lse),
      cexp_table = [1, \<i>, - 1, - \<i>],
      file_opens = (\<lambda>i_rx_port i_antenna_port. True)\<rparr>"

definition occasion_config ::
  "nat \<Rightarrow> nat list \<Rightarrow> string option \<Rightarrow> srs_estimator_configuration" where
  "occasion_config nof_tx_ports rx_ports c =
     \<lparr>resource = \<lparr>nof_antenna_ports = nof_tx_ports, nof_symbols = 1, start_symbol = 13,
                  comb_size = 4\<rparr>,
      numerology = 0, ports = rx_ports, context_opt = c\<rparr>"

text \<open>
  The same occasion for four transmit ports with interleaved pilots: the cyclic shift of
  port 0 is half of the maximum, and the ports of odd index start two subcarriers
  higher.
\<close>

definition interleaved_info :: "srs_resource_configuration \<Rightarrow> nat \<Rightarrow> srs_information" where
  "interleaved_info r p =
     \<lparr>sequence_length = 12, sequence_group = 0, sequence_number = 0,
      n_cs = (6 + 3 * p) mod 12, n_cs_max = 12,
      mapping_initial_subcarrier = (if even p then 0 else 2), info_comb_size = 4\<rparr>"

definition interleaved_deps :: srs_dependencies where
  "interleaved_deps = (occasion_deps occasion_ta)\<lparr>get_srs_information := interleaved_info\<rparr>"

definition constant_grid :: "complex \<Rightarrow> resource_grid_reader" where
  "constant_grid c = (\<lambda>port i_symbol k. c)"

section \<open>The phase-shift compensator\<close>

lemma unat_word_of_int_mod:
  assumes "0 < T" and "T dvd 2 ^ 32"
  shows "unat (word_of_int k :: 32 word) mod T = nat (k mod int T)"
proof -
  have d: "int T dvd 2 ^ 32"
    using assms(2) by (metis of_nat_dvd_iff of_nat_numeral of_nat_power)
  have "unat (word_of_int k :: 32 word) = nat (k mod 2 ^ 32)"
    by (simp add: unat_eq_nat_uint uint_word_of_int)
  then have "unat (word_of_int k :: 32 word) mod T = nat (k mod 2 ^ 32) mod T"
    by simp
  also have "\<dots> = nat ((k mod 2 ^ 32) mod int T)"
    by (simp add: nat_mod_distrib)
  also have "(k mod 2 ^ 32) mod int T = k mod int T"
    using d by (rule mod_mod_cancel)
  finally show ?thesis .
qed

lemma unat_word_of_int_nonneg:
  assumes "0 \<le> k" and "k < 2 ^ 31"
  shows "unat (word_of_int k :: 32 word) mod T = nat (k mod int T)"
proof -
  have "k mod 2 ^ 32 = k"
    using assms by simp
  then have "unat (word_of_int k :: 32 word) = nat k"
    by (simp add: unat_eq_nat_uint uint_word_of_int)
  then show ?thesis
    using assms(1) by (simp add: nat_mod_distrib)
qed

lemma pow2_powr: "pow2 e = 2 powr (of_int e)"
  by (simp add: pow2_def powr_real_of_int inverse_eq_divide)

lemma floor_log2:
  assumes "pow2 k \<le> \<bar>x\<bar>" and "\<bar>x\<bar> < pow2 (k + 1)"
  shows "\<lfloor>log 2 \<bar>x\<bar>\<rfloor> = k"
proof -
  have "0 < pow2 k"
    by (simp add: pow2_def)
  then have "0 < \<bar>x\<bar>"
    using assms(1) by linarith
  then show ?thesis
    using assms by (simp add: floor_log_eq_powr_iff pow2_powr)
qed

text \<open>Rounding a number whose binary exponent is known.\<close>

lemma fl_round_at:
  assumes "pow2 k \<le> \<bar>x\<bar>" and "\<bar>x\<bar> < pow2 (k + 1)"
  shows "fl_round p emin x =
     of_int (round_even (x / pow2 (max (k - int p + 1) emin))) * pow2 (max (k - int p + 1) emin)"
proof -
  have "0 < pow2 k"
    by (simp add: pow2_def)
  then have "x \<noteq> 0"
    using assms(1) by auto
  then show ?thesis
    by (simp add: fl_round_def floor_log2 [OF assms] Let_def)
qed

lemma fl_zero: "fl32 0 = 0" "fl64 0 = 0"
  by (simp_all add: fl32_def fl64_def fl_round_def)

lemma compensate_phase_shift_length:
  "length (compensate_phase_shift table x pps off) = length x"
  by (simp add: compensate_phase_shift_def srsvec_prod_def cexp_table_generate_def)

lemma phase_index_checked_Some:
  assumes "phase_index_checked T pps off n = Some r"
  shows "r = c_round (fl32 (fl32 (fl32 (real T) * fl32 (fl32 (fl32 (real n) * pps) + off))
                            / twopi32))"
    and "- (2 ^ 31) \<le> r" and "r < 2 ^ 31"
  using assms
  by (auto simp: phase_index_checked_def Let_def split: if_splits)

lemma compensate_phase_shift_nth:
  assumes "phase_index_checked (length table) pps off n = Some r"
    and "n < length x" and "0 < length table"
    and "0 \<le> r \<or> length table dvd 2 ^ 32"
  shows "compensate_phase_shift table x pps off ! n =
     x ! n * table ! nat (r mod int (length table))"
proof -
  have "unat (word_of_int r :: 32 word) mod length table = nat (r mod int (length table))"
    using assms(4)
  proof
    assume "0 \<le> r"
    then show ?thesis
      using phase_index_checked_Some(3) [OF assms(1)] by (rule unat_word_of_int_nonneg)
  next
    assume "length table dvd 2 ^ 32"
    with assms(3) show ?thesis
      by (rule unat_word_of_int_mod)
  qed
  then show ?thesis
    using assms(1,2)
    by (simp add: compensate_phase_shift_def srsvec_prod_def cexp_table_generate_def
        phase_index_def)
qed

text \<open>Indices of the table of four entries, computed as the source computes them.\<close>

lemma fl32_small:
  "fl32 (real (3::nat)) = 3" "fl32 (real (4::nat)) = 4" "fl32 (real (0::nat)) = 0"
proof -
  show "fl32 (real (3::nat)) = 3"
    unfolding fl32_def by (subst fl_round_at [of 1]) (simp_all add: pow2_def round_even_def)
  show "fl32 (real (4::nat)) = 4"
    unfolding fl32_def by (subst fl_round_at [of 2]) (simp_all add: pow2_def round_even_def)
  show "fl32 (real (0::nat)) = 0"
    by (simp add: fl_zero)
qed

lemma index_tie_to_even:
  "phase_index_checked 4 8388609 (- 25165828) 3 = Some 0"
proof -
  have a: "fl32 (3 * 8388609) = 25165828"
    unfolding fl32_def by (subst fl_round_at [of 24]) (simp_all add: pow2_def round_even_def)
  have b: "fl32 (25165828 + - 25165828) = 0"
    by (simp add: fl_zero)
  have c: "fl32 (4 * 0) = 0" "fl32 (0 / twopi32) = 0"
    by (simp_all add: fl_zero)
  have r: "c_round 0 = 0"
    by (simp add: c_round_def)
  show ?thesis
    unfolding phase_index_checked_def Let_def fl32_small a b c r by simp
qed

lemma index_quarter_turn:
  "phase_index_checked 4 (13176795 / 2 ^ 23) (13176795 / 2 ^ 24) 0 = Some 1"
proof -
  have a: "fl32 (0 * (13176795 / 2 ^ 23)) = 0"
    by (simp add: fl_zero)
  have b: "fl32 (0 + 13176795 / 2 ^ 24) = 13176795 / 2 ^ 24"
    unfolding fl32_def by (subst fl_round_at [of "- 1"]) (simp_all add: pow2_def round_even_def)
  have c: "fl32 (4 * (13176795 / 2 ^ 24)) = 13176795 / 2 ^ 22"
    unfolding fl32_def by (subst fl_round_at [of 1]) (simp_all add: pow2_def round_even_def)
  have d: "fl32 (13176795 / 2 ^ 22 / twopi32) = 1 / 2"
    unfolding fl32_def twopi32_def
    by (subst fl_round_at [of "- 1"]) (simp_all add: pow2_def round_even_def)
  have r: "c_round (1 / 2) = 1"
    by (simp add: c_round_def)
  show ?thesis
    unfolding phase_index_checked_def Let_def fl32_small a b c d r by simp
qed

lemma index_quarter_turn_back:
  "phase_index_checked 4 (13176795 / 2 ^ 23) (- (13176795 / 2 ^ 24)) 0 = Some (- 1)"
proof -
  have a: "fl32 (0 * (13176795 / 2 ^ 23)) = 0"
    by (simp add: fl_zero)
  have b: "fl32 (0 + - (13176795 / 2 ^ 24)) = - (13176795 / 2 ^ 24)"
    unfolding fl32_def by (subst fl_round_at [of "- 1"]) (simp_all add: pow2_def round_even_def)
  have c: "fl32 (4 * - (13176795 / 2 ^ 24)) = - (13176795 / 2 ^ 22)"
    unfolding fl32_def by (subst fl_round_at [of 1]) (simp_all add: pow2_def round_even_def)
  have d: "fl32 (- (13176795 / 2 ^ 22) / twopi32) = - (1 / 2)"
    unfolding fl32_def twopi32_def
    by (subst fl_round_at [of "- 1"]) (simp_all add: pow2_def round_even_def)
  have r: "c_round (- (1 / 2)) = - 1"
    by (simp add: c_round_def ceiling_def)
  show ?thesis
    unfolding phase_index_checked_def Let_def fl32_small a b c d r by simp
qed

lemma index_fourth_pilot:
  "phase_index_checked 4 (13176795 / 2 ^ 23) (13176795 / 2 ^ 24) 3 = Some 3"
proof -
  have a: "fl32 (3 * (13176795 / 2 ^ 23)) = 2470649 / 2 ^ 19"
    unfolding fl32_def by (subst fl_round_at [of 2]) (simp_all add: pow2_def round_even_def)
  have b: "fl32 (2470649 / 2 ^ 19 + 13176795 / 2 ^ 24) = 11529695 / 2 ^ 21"
    unfolding fl32_def by (subst fl_round_at [of 2]) (simp_all add: pow2_def round_even_def)
  have c: "fl32 (4 * (11529695 / 2 ^ 21)) = 11529695 / 2 ^ 19"
    unfolding fl32_def by (subst fl_round_at [of 4]) (simp_all add: pow2_def round_even_def)
  have d: "fl32 (11529695 / 2 ^ 19 / twopi32) = 14680063 / 2 ^ 22"
    unfolding fl32_def twopi32_def
    by (subst fl_round_at [of 1]) (simp_all add: pow2_def round_even_def)
  have r: "c_round (14680063 / 2 ^ 22) = 3"
    by (simp add: c_round_def)
  show ?thesis
    unfolding phase_index_checked_def Let_def fl32_small a b c d r by simp
qed

lemma exact_index_minus_one: "c_round (- (2 / pi)) = - 1"
proof -
  have "2 \<le> pi" and "pi < 4"
    using pi_ge_two pi_less_4 by auto
  then have b: "1 / 2 < 2 / pi" "2 / pi \<le> 1"
    by (simp_all add: field_simps)
  have "\<lceil>- (2 / pi) - 1 / 2\<rceil> = - 1"
  proof (rule ceiling_unique)
    show "real_of_int (- 1) - 1 < - (2 / pi) - 1 / 2"
      using b(2) by linarith
    show "- (2 / pi) - 1 / 2 \<le> real_of_int (- 1)"
      using b(1) by linarith
  qed
  moreover have "\<not> 0 \<le> - (2 / pi)"
    using b(1) by linarith
  ultimately show ?thesis
    by (simp only: c_round_def if_False)
qed

text \<open>
  C8 fails where rounding in single precision changes the phase. With a table of four
  entries, \<open>phase_per_subcarrier = 8388609\<close>, \<open>phase_offset = \<midarrow>25165828\<close> and
  \<open>n = 3\<close> the phase is \<open>\<midarrow>1\<close> and the index of the claim is
  \<open>round(4 \<times> (\<midarrow>1) / 2\<pi>) mod 4 = 3\<close>. The source rounds the product \<open>3 \<times> 8388609\<close>
  to the binary32 number 25165828, its phase is 0 and it reads the table at index 0.
\<close>

theorem compensate_phase_shift_exact_index_counterexample:
  "compensate_phase_shift [1, \<i>, - 1, - \<i>] [2, 3, 5, 7] 8388609 (- 25165828) ! 3 = 7
   \<and> [2, 3, 5, 7] ! 3
       * [1, \<i>, - 1, - \<i>]
           ! nat (c_round (real (length [1, \<i>, - 1, - \<i>])
                           * (real 3 * 8388609 + (- 25165828)) / (2 * pi))
                  mod int (length [1, \<i>, - 1, - \<i>]))
       = - (7 * \<i>)
   \<and> compensate_phase_shift [1, \<i>, - 1, - \<i>] [2, 3, 5, 7] 8388609 (- 25165828) ! 3
       \<noteq> [2, 3, 5, 7] ! 3
           * [1, \<i>, - 1, - \<i>]
               ! nat (c_round (real (length [1, \<i>, - 1, - \<i>])
                               * (real 3 * 8388609 + (- 25165828)) / (2 * pi))
                      mod int (length [1, \<i>, - 1, - \<i>]))"
proof -
  have four: "length [1, \<i>, - 1, - \<i>] = 4"
    by simp
  have index: "phase_index_checked (length [1, \<i>, - 1, - \<i>]) 8388609 (- 25165828) 3 = Some 0"
    unfolding four by (rule index_tie_to_even)
  have code: "compensate_phase_shift [1, \<i>, - 1, - \<i>] [2, 3, 5, 7] 8388609 (- 25165828) ! 3 = 7"
    using compensate_phase_shift_nth [OF index, where x = "[2, 3, 5, 7]"]
    by (simp add: numeral_3_eq_3)
  have "real (length [1, \<i>, - 1, - \<i>]) * (real 3 * 8388609 + (- 25165828)) / (2 * pi)
      = - (2 / pi)"
    by simp
  then have "c_round (real (length [1, \<i>, - 1, - \<i>])
                           * (real 3 * 8388609 + (- 25165828)) / (2 * pi)) = - 1"
    by (simp only: exact_index_minus_one)
  then have exact: "[2, 3, 5, 7] ! 3
       * [1, \<i>, - 1, - \<i>]
           ! nat (c_round (real (length [1, \<i>, - 1, - \<i>])
                           * (real 3 * 8388609 + (- 25165828)) / (2 * pi))
                  mod int (length [1, \<i>, - 1, - \<i>]))
       = - (7 * \<i>)"
    by (simp only:) (simp add: numeral_3_eq_3)
  have "(7 :: complex) \<noteq> - (7 * \<i>)"
    by (simp add: complex_eq_iff)
  then show ?thesis
    using code exact by (simp only: simp_thms)
qed

text \<open>
  C8, amended. For an input sequence of length \<open>L\<close>, single-precision phase
  parameters and \<open>n < L\<close>, let \<open>r\<close> be
  \<open>round(table_size \<times> (n \<times> phase_per_subcarrier + phase_offset) / TWOPI)\<close> as the source
  computes it: the two products, the sum and the quotient each rounded to single
  precision, \<open>TWOPI\<close> the single-precision constant, and \<open>round\<close> to the nearest
  integer with halfway cases away from zero. Whenever no operation overflows and \<open>r\<close>
  is in the range of \<^verbatim>\<open>int\<close>, and \<open>r\<close> is not negative or the table size divides
  \<open>2\<^sup>3\<^sup>2\<close>, the compensator puts in place of element \<open>n\<close> its product with the table
  entry at index \<open>r mod table_size\<close>; the result has the length of the input and is a
  function of the sequence, the two phases and the table.
\<close>

theorem compensate_phase_shift_single_precision:
  assumes "phase_index_checked (length table) pps off n = Some r"
    and "n < length x" and "0 < length table"
    and "0 \<le> r \<or> length table dvd 2 ^ 32"
  shows "r = c_round (fl32 (fl32 (fl32 (real (length table))
                                    * fl32 (fl32 (fl32 (real n) * pps) + off))
                            / twopi32))
       \<and> length (compensate_phase_shift table x pps off) = length x
       \<and> compensate_phase_shift table x pps off ! n
           = x ! n * table ! nat (r mod int (length table))"
  using phase_index_checked_Some(1) [OF assms(1)] compensate_phase_shift_length
    compensate_phase_shift_nth [OF assms]
  by simp

theorem compensate_phase_shift_single_precision_witness:
  "phase_index_checked 4 (13176795 / 2 ^ 23) (13176795 / 2 ^ 24) 0 = Some 1
   \<and> compensate_phase_shift [1, \<i>, - 1, - \<i>] [2, 3, 5, 7]
        (13176795 / 2 ^ 23) (13176795 / 2 ^ 24) ! 0 = 2 * \<i>
   \<and> phase_index_checked 4 (13176795 / 2 ^ 23) (13176795 / 2 ^ 24) 3 = Some 3
   \<and> compensate_phase_shift [1, \<i>, - 1, - \<i>] [2, 3, 5, 7]
        (13176795 / 2 ^ 23) (13176795 / 2 ^ 24) ! 3 = - (7 * \<i>)
   \<and> phase_index_checked 4 (13176795 / 2 ^ 23) (- (13176795 / 2 ^ 24)) 0 = Some (- 1)
   \<and> compensate_phase_shift [1, \<i>, - 1, - \<i>] [2, 3, 5, 7]
        (13176795 / 2 ^ 23) (- (13176795 / 2 ^ 24)) ! 0 = - (2 * \<i>)
   \<and> length (compensate_phase_shift [1, \<i>, - 1, - \<i>] [2, 3, 5, 7]
        (13176795 / 2 ^ 23) (13176795 / 2 ^ 24)) = 4"
proof -
  have four: "length [1, \<i>, - 1, - \<i>] = 4"
    by simp
  have dvd: "length [1, \<i>, - 1, - \<i>] dvd 2 ^ 32"
    unfolding four by (rule dvdI [where k = "2 ^ 30"]) simp
  have p1: "phase_index_checked (length [1, \<i>, - 1, - \<i>])
        (13176795 / 2 ^ 23) (13176795 / 2 ^ 24) 0 = Some 1"
    unfolding four by (rule index_quarter_turn)
  have p2: "phase_index_checked (length [1, \<i>, - 1, - \<i>])
        (13176795 / 2 ^ 23) (13176795 / 2 ^ 24) 3 = Some 3"
    unfolding four by (rule index_fourth_pilot)
  have p3: "phase_index_checked (length [1, \<i>, - 1, - \<i>])
        (13176795 / 2 ^ 23) (- (13176795 / 2 ^ 24)) 0 = Some (- 1)"
    unfolding four by (rule index_quarter_turn_back)
  have first: "compensate_phase_shift [1, \<i>, - 1, - \<i>] [2, 3, 5, 7]
        (13176795 / 2 ^ 23) (13176795 / 2 ^ 24) ! 0 = 2 * \<i>"
    using compensate_phase_shift_single_precision [OF p1, where x = "[2, 3, 5, 7]"]
    by simp
  have fourth: "compensate_phase_shift [1, \<i>, - 1, - \<i>] [2, 3, 5, 7]
        (13176795 / 2 ^ 23) (13176795 / 2 ^ 24) ! 3 = - (7 * \<i>)
      \<and> length (compensate_phase_shift [1, \<i>, - 1, - \<i>] [2, 3, 5, 7]
        (13176795 / 2 ^ 23) (13176795 / 2 ^ 24)) = 4"
    using compensate_phase_shift_single_precision [OF p2, where x = "[2, 3, 5, 7]"]
    by (simp add: numeral_3_eq_3)
  have negative: "compensate_phase_shift [1, \<i>, - 1, - \<i>] [2, 3, 5, 7]
        (13176795 / 2 ^ 23) (- (13176795 / 2 ^ 24)) ! 0 = - (2 * \<i>)"
    using compensate_phase_shift_single_precision [OF p3, where x = "[2, 3, 5, 7]"] dvd
    by simp
  show ?thesis
    using first fourth negative index_quarter_turn index_fourth_pilot index_quarter_turn_back
    by (simp only: simp_thms)
qed

section \<open>Running the estimator on the four-block occasion\<close>

lemma grid_get_constant:
  "grid_get (constant_grid c) len port i k stride = replicate len c"
  by (simp add: grid_get_def constant_grid_def map_replicate_const)

lemma srsvec_replicate:
  "srsvec_add (replicate n a) (replicate n b) = replicate n (a + b)"
  "srsvec_subtract (replicate n a) (replicate n b) = replicate n (a - b)"
  "srsvec_prod_conj (replicate n a) (replicate n b) = replicate n (a * cnj b)"
  "srsvec_sc_prod (replicate n a) h = replicate n (a * h)"
  by (simp_all add: srsvec_add_def srsvec_subtract_def srsvec_prod_conj_def srsvec_sc_prod_def)

lemma srsvec_mean_replicate: "0 < n \<Longrightarrow> srsvec_mean (replicate n c) = c"
  by (simp add: srsvec_mean_def sum_list_replicate)

lemma srsvec_average_power_replicate:
  "0 < n \<Longrightarrow> srsvec_average_power (replicate n c) = (cmod c)\<^sup>2"
  by (simp add: srsvec_average_power_def sum_list_replicate comp_def)

lemma phase_index_zero: "phase_index T 0 0 n = 0"
  by (simp add: phase_index_def phase_index_checked_def c_round_def fl_zero Let_def)

lemma compensate_zero_phase:
  "0 < length table \<Longrightarrow>
   compensate_phase_shift table (replicate n c) 0 0 = replicate n (c * table ! 0)"
  by (simp add: compensate_phase_shift_def cexp_table_generate_def srsvec_prod_def
      map_replicate_const comp_def phase_index_zero)

lemma occasion_config_fields:
  "nof_antenna_ports (resource (occasion_config ntx ps c)) = ntx"
  "nof_symbols (resource (occasion_config ntx ps c)) = 1"
  "start_symbol (resource (occasion_config ntx ps c)) = 13"
  "comb_size (resource (occasion_config ntx ps c)) = 4"
  "numerology (occasion_config ntx ps c) = 0"
  "ports (occasion_config ntx ps c) = ps"
  "context_opt (occasion_config ntx ps c) = c"
  by (simp_all add: occasion_config_def)

lemma occasion_deps_fields:
  "get_srs_information (occasion_deps est) r p = occasion_info r p"
  "ta_estimator (occasion_deps est) lse comb scs mx = est lse"
  "cexp_table (occasion_deps est) = [1, \<i>, - 1, - \<i>]"
  "file_opens (occasion_deps est) a b = True"
  by (simp_all add: occasion_deps_def)

lemma occasion_info_fields:
  "sequence_length (occasion_info r p) = 12"
  "mapping_initial_subcarrier (occasion_info r p) = 0"
  "info_comb_size (occasion_info r p) = 4"
  "n_cs_max (occasion_info r p) = 12"
  "n_cs (occasion_info r 0) = 0"
  by (simp_all add: occasion_info_def)

lemma occasion_ta_fields:
  "time_alignment (occasion_ta lse) = 0"
  "resolution (occasion_ta lse) = 1 / 10 ^ 8"
  "ta_min (occasion_ta lse) = - (1 / 10 ^ 6)"
  "ta_max (occasion_ta lse) = 1 / 10 ^ 6"
  by (simp_all add: occasion_ta_def)

lemma occasion_sequence:
  "generate_sequence (occasion_deps est) len (occasion_info r 0) = replicate len 1"
  by (simp add: generate_sequence_def occasion_deps_def occasion_info_def map_replicate_const)

lemma occasion_sequence_length:
  "common_sequence_length (occasion_deps est) (occasion_config ntx ps c) = 12"
  by (simp add: common_sequence_length_def occasion_deps_fields occasion_info_fields)

lemma occasion_not_interleaved:
  "\<not> interleaved_pilots (occasion_deps est) (occasion_config ntx ps c)"
  by (simp add: interleaved_pilots_def occasion_deps_fields occasion_info_fields)

lemmas occasion_simps =
  fl_zero grid_get_constant srsvec_replicate srsvec_mean_replicate srsvec_average_power_replicate
  compensate_zero_phase occasion_config_fields occasion_deps_fields occasion_info_fields
  occasion_ta_fields occasion_sequence occasion_sequence_length occasion_not_interleaved

lemma occasion_valid:
  "valid_request (occasion_deps est) (occasion_config 1 [0] c)"
  "valid_request (occasion_deps est) (occasion_config 1 [0, 1] c)"
  "valid_request (occasion_deps est) (occasion_config 2 [0] c)"
  by (simp_all add: valid_request_def occasion_simps nof_estimates_def max_nof_rx_ports_def
      max_seq_length_def upt_rec [of 0 2] upt_rec [of "Suc 0" 2])

lemma extract_rnti_occasion: "extract_rnti (Some ''sector_id=0 rnti=0x4601'') = Some 0x4601"
  by (simp add: extract_rnti_def stoul16_def is_space_def is_hex_def hex_digit_def
      hex_value_def Let_def)

lemma occasion_lse_stage:
  "lse_stage (occasion_deps occasion_ta) (constant_grid g) (occasion_config (Suc 0) [0] c) =
     \<lparr>temp_lse = (\<lambda>v. replicate 12 0)((0, 0) := replicate 12 g),
      temp_noise = (\<lambda>v. replicate 12 0)((0, 0) := replicate 12 g),
      all_sequences = (\<lambda>v. replicate 12 0)(0 := replicate 12 1),
      epre = (cmod g)\<^sup>2,
      ta = \<lparr>time_alignment = 0, resolution = 1 / 10 ^ 8,
             ta_min = numeric_limits_double_min, ta_max = 1 / 10 ^ 6\<rparr>,
      chan = [[0]], rsrp = 0, noise_var = 0, csi_log = []\<rparr>"
  by (simp add: lse_stage_def lse_tx_step_def lse_port_state_def lse_rx_step_def symbol_step_def
      port_ta_measurement_def initial_state_def combine_ta_def noise_parity_def Let_def
      numeric_limits_double_min_def numeric_limits_double_max_def srs_channel_matrix_def
      occasion_simps)

lemma occasion_coef_stage_logged:
  "coef_stage (occasion_deps occasion_ta) (constant_grid g)
      (occasion_config (Suc 0) [0] (Some ''sector_id=0 rnti=0x4601'')) =
     \<lparr>temp_lse = (\<lambda>v. replicate 12 0)((0, 0) := replicate 12 g),
      temp_noise = (\<lambda>v. replicate 12 0)((0, 0) := replicate 12 0),
      all_sequences = (\<lambda>v. replicate 12 0)(0 := replicate 12 1),
      epre = (cmod g)\<^sup>2,
      ta = \<lparr>time_alignment = 0, resolution = 1 / 10 ^ 8,
             ta_min = numeric_limits_double_min, ta_max = 1 / 10 ^ 6\<rparr>,
      chan = [[g]], rsrp = std_norm g, noise_var = 0,
      csi_log =
        [csi_entry (occasion_config (Suc 0) [0] (Some ''sector_id=0 rnti=0x4601''))
           (occasion_info (resource (occasion_config (Suc 0) [0] (Some ''sector_id=0 rnti=0x4601''))) 0)
           0x4601 0 0 (replicate 12 g)]\<rparr>"
  by (simp add: coef_stage_def occasion_lse_stage coef_rx_step_def coef_tx_step_def
      csi_collect_def extract_rnti_occasion phase_shift_subcarrier_def phase_shift_offset_def
      noise_parity_def set_coefficient_def Let_def occasion_simps)

lemma occasion_coef_stage_skipped:
  "coef_stage (occasion_deps occasion_ta) (constant_grid g) (occasion_config (Suc 0) [0] None) =
     \<lparr>temp_lse = (\<lambda>v. replicate 12 0)((0, 0) := replicate 12 g),
      temp_noise = (\<lambda>v. replicate 12 0)((0, 0) := replicate 12 g),
      all_sequences = (\<lambda>v. replicate 12 0)(0 := replicate 12 1),
      epre = (cmod g)\<^sup>2,
      ta = \<lparr>time_alignment = 0, resolution = 1 / 10 ^ 8,
             ta_min = numeric_limits_double_min, ta_max = 1 / 10 ^ 6\<rparr>,
      chan = [[0]], rsrp = 0, noise_var = (cmod g)\<^sup>2 * 12, csi_log = []\<rparr>"
  by (simp add: coef_stage_def occasion_lse_stage coef_rx_step_def coef_tx_step_def
      csi_collect_def extract_rnti_def phase_shift_subcarrier_def phase_shift_offset_def
      noise_parity_def Let_def occasion_simps)

lemma occasion_divisors:
  "unat (noise_divisor (occasion_deps est) (occasion_config (Suc 0) [0] c)) = 11"
  "unat (epre_divisor (occasion_deps est) (occasion_config (Suc 0) [0] c)) = 1"
  "unat (rsrp_divisor (occasion_config (Suc 0) [0] c)) = 1"
  by (simp_all add: noise_divisor_def epre_divisor_def rsrp_divisor_def nof_estimates_def
      correction_factor_def occasion_simps)

section \<open>The divisors of the normalisation\<close>

lemma valid_request_bounds:
  assumes "valid_request deps config"
  shows "1 \<le> nof_antenna_ports (resource config)" "nof_antenna_ports (resource config) \<le> 4"
    "1 \<le> nof_symbols (resource config)" "nof_symbols (resource config) \<le> 4"
    "1 \<le> length (ports config)" "length (ports config) \<le> 4"
    "common_sequence_length deps config \<le> 1650"
    "nof_estimates deps config
       < nof_symbols (resource config) * common_sequence_length deps config"
  using assms
  by (auto simp: valid_request_def max_nof_rx_ports_def max_seq_length_def Suc_le_eq)

lemma correction_factor_bounds:
  "0 < correction_factor deps config" "correction_factor deps config \<le> 2"
  by (simp_all add: correction_factor_def)

lemma symbols_times_length_bound:
  assumes "valid_request deps config"
  shows "nof_symbols (resource config) * common_sequence_length deps config \<le> 6600"
proof -
  have "nof_symbols (resource config) * common_sequence_length deps config \<le> 4 * 1650"
    using valid_request_bounds(4,7) [OF assms] by (rule mult_le_mono)
  then show ?thesis by simp
qed

lemma noise_divisor_nat_bound:
  assumes "valid_request deps config"
  shows "(nof_symbols (resource config) * common_sequence_length deps config
            - nof_estimates deps config)
          * correction_factor deps config * length (ports config) \<le> 52800"
proof -
  have "nof_symbols (resource config) * common_sequence_length deps config
      - nof_estimates deps config \<le> 6600"
    using symbols_times_length_bound [OF assms] by simp
  then have "(nof_symbols (resource config) * common_sequence_length deps config
      - nof_estimates deps config) * correction_factor deps config \<le> 6600 * 2"
    using correction_factor_bounds(2) by (rule mult_le_mono)
  then have "(nof_symbols (resource config) * common_sequence_length deps config
      - nof_estimates deps config) * correction_factor deps config * length (ports config)
      \<le> 6600 * 2 * 4"
    using valid_request_bounds(6) [OF assms] by (rule mult_le_mono)
  then show ?thesis by simp
qed

lemma unat_of_nat_small: "n < 2 ^ 32 \<Longrightarrow> unat (of_nat n :: 32 word) = n"
  by (subst unat_of_nat) simp

lemma symbols_times_length_unat:
  assumes "valid_request deps config"
  shows "unat (of_nat (nof_symbols (resource config))
               * of_nat (common_sequence_length deps config) :: 32 word)
         = nof_symbols (resource config) * common_sequence_length deps config"
proof -
  have "nof_symbols (resource config) * common_sequence_length deps config < 2 ^ 32"
    using symbols_times_length_bound [OF assms] by simp
  then have "unat (of_nat (nof_symbols (resource config) * common_sequence_length deps config)
                   :: 32 word)
      = nof_symbols (resource config) * common_sequence_length deps config"
    by (rule unat_of_nat_small)
  then show ?thesis by simp
qed

lemma difference_unat:
  assumes "valid_request deps config"
  shows "unat (of_nat (nof_symbols (resource config))
               * of_nat (common_sequence_length deps config)
               - of_nat (nof_estimates deps config) :: 32 word)
         = nof_symbols (resource config) * common_sequence_length deps config
             - nof_estimates deps config"
proof -
  let ?d = "nof_symbols (resource config) * common_sequence_length deps config
             - nof_estimates deps config"
  have le: "nof_estimates deps config
      \<le> nof_symbols (resource config) * common_sequence_length deps config"
    using valid_request_bounds(8) [OF assms] by simp
  have "?d < 2 ^ 32"
    using symbols_times_length_bound [OF assms] by simp
  then have "unat (of_nat ?d :: 32 word) = ?d"
    by (rule unat_of_nat_small)
  moreover have "(of_nat ?d :: 32 word) =
      of_nat (nof_symbols (resource config)) * of_nat (common_sequence_length deps config)
        - of_nat (nof_estimates deps config)"
    using le by simp
  ultimately show ?thesis by (simp only:)
qed

lemma noise_divisor_unat:
  assumes "valid_request deps config"
  shows "unat (noise_divisor deps config) =
     (nof_symbols (resource config) * common_sequence_length deps config
        - nof_estimates deps config)
       * correction_factor deps config * length (ports config)"
proof -
  let ?n = "(nof_symbols (resource config) * common_sequence_length deps config
        - nof_estimates deps config)
       * correction_factor deps config * length (ports config)"
  have le: "nof_estimates deps config
      \<le> nof_symbols (resource config) * common_sequence_length deps config"
    using valid_request_bounds(8) [OF assms] by simp
  have "noise_divisor deps config = (of_nat ?n :: 32 word)"
    using le by (simp add: noise_divisor_def)
  moreover have "?n < 2 ^ 32"
    using noise_divisor_nat_bound [OF assms] by simp
  then have "unat (of_nat ?n :: 32 word) = ?n"
    by (rule unat_of_nat_small)
  ultimately show ?thesis
    by (simp only:)
qed

lemma noise_divisor_positive:
  assumes "valid_request deps config"
  shows "0 < unat (noise_divisor deps config)"
proof -
  have "0 < nof_symbols (resource config) * common_sequence_length deps config
      - nof_estimates deps config"
    using valid_request_bounds(8) [OF assms] by simp
  moreover have "ports config \<noteq> []"
    using assms by (simp add: valid_request_def)
  ultimately show ?thesis
    by (simp add: noise_divisor_unat [OF assms] correction_factor_bounds(1))
qed

lemma rsrp_divisor_unat:
  assumes "valid_request deps config"
  shows "unat (rsrp_divisor config) = nof_antenna_ports (resource config) * length (ports config)"
proof -
  have "nof_antenna_ports (resource config) * length (ports config) \<le> 4 * 4"
    using valid_request_bounds(2,6) [OF assms] by (rule mult_le_mono)
  then have "nof_antenna_ports (resource config) * length (ports config) < 2 ^ 32"
    by simp
  then have "unat (of_nat (nof_antenna_ports (resource config) * length (ports config)) :: 32 word)
      = nof_antenna_ports (resource config) * length (ports config)"
    by (rule unat_of_nat_small)
  then show ?thesis
    by (simp add: rsrp_divisor_def)
qed

lemma normalized_noise_var_valid:
  assumes "valid_request deps config"
  shows "normalized_noise_var deps grid config =
     Finite (noise_var (coef_stage deps grid config)
             / real ((nof_symbols (resource config) * common_sequence_length deps config
                        - nof_estimates deps config)
                     * correction_factor deps config * length (ports config)))"
proof -
  have "0 < real (unat (noise_divisor deps config))"
    using noise_divisor_positive [OF assms] by (simp only: of_nat_0_less_iff)
  then have "real (unat (noise_divisor deps config)) \<noteq> 0"
    by (metis less_irrefl)
  then have "normalized_noise_var deps grid config =
      Finite (noise_var (coef_stage deps grid config) / real (unat (noise_divisor deps config)))"
    unfolding normalized_noise_var_def fdiv_def by (rule if_P)
  then show ?thesis
    by (simp only: noise_divisor_unat [OF assms])
qed

text \<open>
  C10. For a structurally valid request, the product
  \<open>num_symbols \<times> sequence_length\<close> and the subtraction of \<open>n_estimates\<close> from it do
  not wrap around in \<^verbatim>\<open>unsigned\<close> arithmetic, the divisor
  \<open>(num_symbols \<times> sequence_length \<midarrow> n_estimates) \<times> correction \<times> num_rx_ports\<close> is
  computed without wrapping and is strictly positive, and the noise variance that the
  division produces is a finite number.
\<close>

theorem noise_divisor_no_wrap:
  assumes "valid_request deps config"
  shows "unat (of_nat (nof_symbols (resource config))
               * of_nat (common_sequence_length deps config) :: 32 word)
           = nof_symbols (resource config) * common_sequence_length deps config
       \<and> nof_estimates deps config
           < nof_symbols (resource config) * common_sequence_length deps config
       \<and> unat (of_nat (nof_symbols (resource config))
                 * of_nat (common_sequence_length deps config)
                 - of_nat (nof_estimates deps config) :: 32 word)
           = nof_symbols (resource config) * common_sequence_length deps config
               - nof_estimates deps config
       \<and> unat (noise_divisor deps config)
           = (nof_symbols (resource config) * common_sequence_length deps config
                - nof_estimates deps config)
             * correction_factor deps config * length (ports config)
       \<and> 0 < unat (noise_divisor deps config)
       \<and> is_finite (noise_variance (estimate deps grid config))"
proof -
  have "is_finite (noise_variance (estimate deps grid config))"
    by (simp add: estimate_def Let_def normalized_noise_var_valid [OF assms])
  then show ?thesis
    using symbols_times_length_unat [OF assms] valid_request_bounds(8) [OF assms]
      difference_unat [OF assms] noise_divisor_unat [OF assms] noise_divisor_positive [OF assms]
    by (simp only: simp_thms)
qed

theorem noise_divisor_no_wrap_witness:
  "valid_request (occasion_deps occasion_ta) (occasion_config 1 [0, 1] None)
   \<and> unat (noise_divisor (occasion_deps occasion_ta) (occasion_config 1 [0, 1] None)) = 22
   \<and> is_finite (noise_variance (estimate (occasion_deps occasion_ta) (constant_grid 2)
                   (occasion_config 1 [0, 1] None)))"
  using noise_divisor_no_wrap [where grid = "constant_grid 2",
      OF occasion_valid(2) [of occasion_ta None]]
    occasion_valid(2) [of occasion_ta None]
  by (simp add: occasion_simps nof_estimates_def correction_factor_def)

text \<open>
  C6. The pilots are interleaved exactly when four transmit ports are configured and
  the cyclic shift of port 0 is at least half of the maximum cyclic shift (the integer
  half \<^verbatim>\<open>n_cs_max / 2\<close>, which is the half when the maximum is even). For a
  structurally valid request the returned noise variance is the accumulated squared
  residual divided by
  \<open>(num_symbols \<times> sequence_length \<midarrow> n_estimates) \<times> correction \<times> num_rx_ports\<close>, with
  \<open>n_estimates\<close> 2 if interleaved and the number of transmit ports otherwise, and
  \<open>correction\<close> 2 if interleaved and 1 otherwise.
\<close>

theorem noise_variance_normalization:
  assumes "valid_request deps config"
  shows "interleaved_pilots deps config
           = (nof_antenna_ports (resource config) = 4
              \<and> n_cs_max (get_srs_information deps (resource config) 0) div 2
                  \<le> n_cs (get_srs_information deps (resource config) 0))
       \<and> (even (n_cs_max (get_srs_information deps (resource config) 0)) \<longrightarrow>
            interleaved_pilots deps config
              = (nof_antenna_ports (resource config) = 4
                 \<and> n_cs_max (get_srs_information deps (resource config) 0)
                     \<le> 2 * n_cs (get_srs_information deps (resource config) 0)))
       \<and> noise_variance (estimate deps grid config)
           = Finite (noise_var (coef_stage deps grid config)
               / real ((nof_symbols (resource config)
                          * sequence_length (get_srs_information deps (resource config) 0)
                        - (if interleaved_pilots deps config then 2
                           else nof_antenna_ports (resource config)))
                       * (if interleaved_pilots deps config then 2 else 1)
                       * length (ports config)))"
proof -
  have "noise_variance (estimate deps grid config)
      = Finite (noise_var (coef_stage deps grid config)
               / real ((nof_symbols (resource config)
                          * sequence_length (get_srs_information deps (resource config) 0)
                        - (if interleaved_pilots deps config then 2
                           else nof_antenna_ports (resource config)))
                       * (if interleaved_pilots deps config then 2 else 1)
                       * length (ports config)))"
    using normalized_noise_var_valid [OF assms, of grid]
    by (simp add: estimate_def Let_def nof_estimates_def correction_factor_def
        common_sequence_length_def)
  moreover have "even (n_cs_max (get_srs_information deps (resource config) 0)) \<Longrightarrow>
      (n_cs_max (get_srs_information deps (resource config) 0) div 2
         \<le> n_cs (get_srs_information deps (resource config) 0))
      = (n_cs_max (get_srs_information deps (resource config) 0)
         \<le> 2 * n_cs (get_srs_information deps (resource config) 0))"
    by (auto elim!: evenE)
  ultimately show ?thesis
    by (simp add: interleaved_pilots_def Let_def)
qed

lemma upt_four: "[0..<4] = [0, 1, 2, 3]"
  by code_simp

lemma interleaved_occasion:
  "valid_request interleaved_deps (occasion_config 4 [0] c)"
  "interleaved_pilots interleaved_deps (occasion_config 4 [0] c)"
  by (simp_all add: valid_request_def interleaved_pilots_def nof_estimates_def
      common_sequence_length_def interleaved_deps_def interleaved_info_def occasion_deps_def
      occasion_config_fields max_nof_rx_ports_def max_seq_length_def upt_four)

theorem noise_variance_normalization_witness:
  "valid_request (occasion_deps occasion_ta) (occasion_config 1 [0] None)
   \<and> \<not> interleaved_pilots (occasion_deps occasion_ta) (occasion_config 1 [0] None)
   \<and> noise_var (coef_stage (occasion_deps occasion_ta) (constant_grid 2)
        (occasion_config 1 [0] None)) = 48
   \<and> noise_variance (estimate (occasion_deps occasion_ta) (constant_grid 2)
        (occasion_config 1 [0] None)) = Finite (48 / 11)
   \<and> valid_request interleaved_deps (occasion_config 4 [0] None)
   \<and> interleaved_pilots interleaved_deps (occasion_config 4 [0] None)
   \<and> noise_variance (estimate interleaved_deps (constant_grid 2) (occasion_config 4 [0] None))
       = Finite (noise_var (coef_stage interleaved_deps (constant_grid 2)
                              (occasion_config 4 [0] None)) / 20)"
proof -
  have plain: "noise_variance (estimate (occasion_deps occasion_ta) (constant_grid 2)
        (occasion_config 1 [0] None)) = Finite (48 / 11)"
    using noise_variance_normalization [where grid = "constant_grid 2",
        OF occasion_valid(1) [of occasion_ta None]]
    by (simp add: occasion_simps occasion_coef_stage_skipped)
  have il: "noise_variance (estimate interleaved_deps (constant_grid 2)
        (occasion_config 4 [0] None))
      = Finite (noise_var (coef_stage interleaved_deps (constant_grid 2)
                              (occasion_config 4 [0] None)) / 20)"
    using noise_variance_normalization [where grid = "constant_grid 2",
        OF interleaved_occasion(1) [of None]] interleaved_occasion(2) [of None]
    by (simp add: occasion_config_fields interleaved_deps_def interleaved_info_def
        occasion_deps_def)
  show ?thesis
    using plain il occasion_valid(1) [of occasion_ta None] interleaved_occasion [of None]
    by (simp add: occasion_simps occasion_coef_stage_skipped)
qed

section \<open>What each loop leaves untouched\<close>

lemma lse_rx_step_keeps:
  "chan (lse_rx_step grid config il p info sq r s) = chan s"
  "rsrp (lse_rx_step grid config il p info sq r s) = rsrp s"
  "noise_var (lse_rx_step grid config il p info sq r s) = noise_var s"
  "csi_log (lse_rx_step grid config il p info sq r s) = csi_log s"
  "ta (lse_rx_step grid config il p info sq r s) = ta s"
  by (simp_all add: lse_rx_step_def Let_def split: prod.splits)

lemma lse_rx_fold_keeps:
  "chan (fold (lse_rx_step grid config il p info sq) rs s) = chan s"
  "rsrp (fold (lse_rx_step grid config il p info sq) rs s) = rsrp s"
  "noise_var (fold (lse_rx_step grid config il p info sq) rs s) = noise_var s"
  "csi_log (fold (lse_rx_step grid config il p info sq) rs s) = csi_log s"
  "ta (fold (lse_rx_step grid config il p info sq) rs s) = ta s"
  by (induction rs arbitrary: s; simp add: lse_rx_step_keeps)+

lemma lse_port_state_keeps:
  "chan (lse_port_state deps grid config p s) = chan s"
  "rsrp (lse_port_state deps grid config p s) = rsrp s"
  "noise_var (lse_port_state deps grid config p s) = noise_var s"
  "csi_log (lse_port_state deps grid config p s) = csi_log s"
  "ta (lse_port_state deps grid config p s) = ta s"
  by (simp_all add: lse_port_state_def Let_def lse_rx_fold_keeps)

lemma lse_tx_step_keeps:
  "chan (lse_tx_step deps grid config p s) = chan s"
  "rsrp (lse_tx_step deps grid config p s) = rsrp s"
  "noise_var (lse_tx_step deps grid config p s) = noise_var s"
  "csi_log (lse_tx_step deps grid config p s) = csi_log s"
  by (simp_all add: lse_tx_step_def Let_def lse_port_state_keeps)

lemma lse_tx_fold_keeps:
  "chan (fold (lse_tx_step deps grid config) ps s) = chan s"
  "rsrp (fold (lse_tx_step deps grid config) ps s) = rsrp s"
  "noise_var (fold (lse_tx_step deps grid config) ps s) = noise_var s"
  "csi_log (fold (lse_tx_step deps grid config) ps s) = csi_log s"
  by (induction ps arbitrary: s; simp add: lse_tx_step_keeps)+

lemma lse_stage_keeps:
  "chan (lse_stage deps grid config) =
     srs_channel_matrix (length (ports config)) (nof_antenna_ports (resource config))"
  "rsrp (lse_stage deps grid config) = 0"
  "noise_var (lse_stage deps grid config) = 0"
  "csi_log (lse_stage deps grid config) = []"
  by (simp_all add: lse_stage_def Let_def lse_tx_fold_keeps initial_state_def)

lemma coef_tx_step_ta: "ta (coef_tx_step deps config r p s) = ta s"
  by (simp add: coef_tx_step_def Let_def split: option.splits)

lemma coef_tx_fold_ta: "ta (fold (coef_tx_step deps config r) ps s) = ta s"
  by (induction ps arbitrary: s) (simp_all add: coef_tx_step_ta)

lemma coef_rx_step_ta: "ta (coef_rx_step deps config r s) = ta s"
  by (simp add: coef_rx_step_def Let_def coef_tx_fold_ta)

lemma coef_rx_fold_ta: "ta (fold (coef_rx_step deps config) rs s) = ta s"
  by (induction rs arbitrary: s) (simp_all add: coef_rx_step_ta)

section \<open>The diagnostic block and the second loop\<close>

lemma extract_rnti_None_iff: "extract_rnti c = None \<longleftrightarrow> rnti_unavailable c"
  by (simp add: extract_rnti_def rnti_unavailable_def Let_def split: option.splits)

lemma coef_tx_step_skip:
  assumes "rnti_unavailable (context_opt config)"
  shows "coef_tx_step deps config r p s =
     s\<lparr>temp_lse := (temp_lse s)((r, p) :=
          compensate_phase_shift (cexp_table deps) (temp_lse s (r, p))
            (phase_shift_subcarrier config s)
            (phase_shift_offset config (get_srs_information deps (resource config) p) s))\<rparr>"
proof -
  have "extract_rnti (context_opt config) = None"
    using assms by (simp add: extract_rnti_None_iff)
  then show ?thesis
    by (simp add: coef_tx_step_def csi_collect_def Let_def)
qed

lemma coef_tx_fold_skip:
  assumes "rnti_unavailable (context_opt config)"
  shows "chan (fold (coef_tx_step deps config r) ps s) = chan s
       \<and> rsrp (fold (coef_tx_step deps config r) ps s) = rsrp s
       \<and> temp_noise (fold (coef_tx_step deps config r) ps s) = temp_noise s
       \<and> noise_var (fold (coef_tx_step deps config r) ps s) = noise_var s
       \<and> csi_log (fold (coef_tx_step deps config r) ps s) = csi_log s"
  by (induction ps arbitrary: s) (simp_all add: coef_tx_step_skip [OF assms])

lemma coef_rx_step_skip:
  assumes "rnti_unavailable (context_opt config)"
  shows "chan (coef_rx_step deps config r s) = chan s
       \<and> rsrp (coef_rx_step deps config r s) = rsrp s
       \<and> temp_noise (coef_rx_step deps config r s) = temp_noise s
       \<and> csi_log (coef_rx_step deps config r s) = csi_log s
       \<and> noise_var (coef_rx_step deps config r s) =
           noise_var s + residual_power (interleaved_pilots deps config) (temp_noise s) r"
  by (simp add: coef_rx_step_def Let_def coef_tx_fold_skip [OF assms] residual_power_def)

lemma coef_rx_fold_skip:
  assumes "rnti_unavailable (context_opt config)"
  shows "chan (fold (coef_rx_step deps config) rs s) = chan s
       \<and> rsrp (fold (coef_rx_step deps config) rs s) = rsrp s
       \<and> temp_noise (fold (coef_rx_step deps config) rs s) = temp_noise s
       \<and> csi_log (fold (coef_rx_step deps config) rs s) = csi_log s
       \<and> noise_var (fold (coef_rx_step deps config) rs s) =
           noise_var s
             + (\<Sum>r\<leftarrow>rs. residual_power (interleaved_pilots deps config) (temp_noise s) r)"
  by (induction rs arbitrary: s) (simp_all add: coef_rx_step_skip [OF assms])

text \<open>
  C2. When the request has no context, or the text of its context has no
  \<^verbatim>\<open>rnti=0x\<close> followed by a number, or the RNTI read from it is zero, every iteration
  of the loop over the pairs of ports ends at the diagnostic block, having only
  compensated the least-squares buffer of the pair. After the loop the channel matrix
  still holds the zeros it was created with, the RSRP accumulator is zero, the
  noise-helper buffers are those of the first loop, with no reconstructed signal
  subtracted, and it is their power that the noise accumulator holds when the
  normalisation runs; the collector has written nothing.
\<close>

theorem csi_skip_ends_iteration:
  assumes "rnti_unavailable (context_opt config)"
  shows "coef_tx_step deps config r p s =
           s\<lparr>temp_lse := (temp_lse s)((r, p) :=
                compensate_phase_shift (cexp_table deps) (temp_lse s (r, p))
                  (phase_shift_subcarrier config s)
                  (phase_shift_offset config (get_srs_information deps (resource config) p) s))\<rparr>
       \<and> chan (coef_stage deps grid config)
           = srs_channel_matrix (length (ports config)) (nof_antenna_ports (resource config))
       \<and> rsrp (coef_stage deps grid config) = 0
       \<and> temp_noise (coef_stage deps grid config) = temp_noise (lse_stage deps grid config)
       \<and> noise_var (coef_stage deps grid config)
           = (\<Sum>i_rx_port\<leftarrow>[0..<length (ports config)].
                residual_power (interleaved_pilots deps config)
                  (temp_noise (lse_stage deps grid config)) i_rx_port)
       \<and> csi_log (coef_stage deps grid config) = []
       \<and> channel_matrix (estimate deps grid config)
           = scale_matrix
               (srs_channel_matrix (length (ports config)) (nof_antenna_ports (resource config)))
               (f_recip (noise_std deps grid config))"
  using coef_tx_step_skip [OF assms, of deps r p s]
    coef_rx_fold_skip [OF assms, of deps "[0..<length (ports config)]" "lse_stage deps grid config"]
  by (simp add: coef_stage_def estimate_def Let_def lse_stage_keeps)

theorem csi_skip_ends_iteration_witness:
  "rnti_unavailable (Some ''sector_id=0 rnti=0x0000'')
   \<and> chan (coef_stage (occasion_deps occasion_ta) (constant_grid 2)
        (occasion_config 1 [0] (Some ''sector_id=0 rnti=0x0000''))) = [[0]]
   \<and> rsrp (coef_stage (occasion_deps occasion_ta) (constant_grid 2)
        (occasion_config 1 [0] (Some ''sector_id=0 rnti=0x0000''))) = 0
   \<and> noise_var (coef_stage (occasion_deps occasion_ta) (constant_grid 2)
        (occasion_config 1 [0] (Some ''sector_id=0 rnti=0x0000''))) = 48"
proof -
  have u: "rnti_unavailable
      (context_opt (occasion_config 1 [0] (Some ''sector_id=0 rnti=0x0000'')))"
    by (simp add: occasion_config_fields rnti_unavailable_def stoul16_def is_space_def
        is_hex_def hex_digit_def hex_value_def Let_def)
  show ?thesis
    using u csi_skip_ends_iteration [OF u, of "occasion_deps occasion_ta" 0 0
        "lse_stage (occasion_deps occasion_ta) (constant_grid 2)
           (occasion_config 1 [0] (Some ''sector_id=0 rnti=0x0000''))" "constant_grid 2"]
    by (simp add: occasion_simps occasion_lse_stage residual_power_def srs_channel_matrix_def)
qed

section \<open>The least-squares buffers\<close>

lemma map2_same: "map2 h (map f xs) (map g xs) = map (\<lambda>x. h (f x) (g x)) xs"
  by (induction xs) simp_all

lemma fst_symbol_step:
  "fst (symbol_step grid config il p info rp i st) =
     (if i = start_symbol (resource config)
      then grid_get grid (sequence_length info) rp i
             (mapping_initial_subcarrier info) (info_comb_size info)
      else srsvec_add (fst st)
             (grid_get grid (sequence_length info) rp i
                (mapping_initial_subcarrier info) (info_comb_size info)))"
  by (cases st) (simp add: symbol_step_def Let_def)

text \<open>The loop over the symbols: the first symbol is copied, each later one is added.\<close>

lemma symbol_fold_sum:
  "fst (fold (symbol_step grid config il p info rp)
          [start_symbol (resource config)..<start_symbol (resource config) + Suc n] st) =
     map (\<lambda>k. \<Sum>i = start_symbol (resource config)..<start_symbol (resource config) + Suc n.
                 grid rp i (mapping_initial_subcarrier info + k * info_comb_size info))
       [0..<sequence_length info]"
proof (induction n)
  case 0
  show ?case
    by (simp add: fst_symbol_step grid_get_def)
next
  case (Suc n)
  have "[start_symbol (resource config)..<start_symbol (resource config) + Suc (Suc n)] =
      [start_symbol (resource config)..<start_symbol (resource config) + Suc n]
        @ [start_symbol (resource config) + Suc n]"
    by simp
  then show ?case
    using Suc.IH
    by (simp only: fold_append comp_apply fold.simps id_apply fst_symbol_step)
       (simp add: srsvec_add_def grid_get_def map2_same)
qed

lemma lse_rx_step_temp_lse:
  assumes "0 < nof_symbols (resource config)"
    and "length sq = sequence_length info"
  shows "temp_lse (lse_rx_step grid config il p info sq r s) =
     (temp_lse s)((r, p) := lse_buffer grid config info sq (ports config ! r))"
proof -
  obtain n where n: "nof_symbols (resource config) = Suc n"
    using assms(1) by (cases "nof_symbols (resource config)") simp_all
  have sq: "sq = map (\<lambda>k. sq ! k) [0..<sequence_length info]"
    unfolding assms(2) [symmetric] by (rule map_nth [symmetric])
  let ?sum = "map (\<lambda>k. \<Sum>i = start_symbol (resource config)..<
                          start_symbol (resource config) + nof_symbols (resource config).
                 grid (ports config ! r) i (mapping_initial_subcarrier info + k * info_comb_size info))
       [0..<sequence_length info]"
  have summed: "fst (fold (symbol_step grid config il p info (ports config ! r))
      [start_symbol (resource config)..<
         start_symbol (resource config) + nof_symbols (resource config)] st0) = ?sum" for st0
    unfolding n by (rule symbol_fold_sum)
  have pc: "srsvec_prod_conj ?sum sq =
      map (\<lambda>k. (\<Sum>i = start_symbol (resource config)..<
                        start_symbol (resource config) + nof_symbols (resource config).
                 grid (ports config ! r) i (mapping_initial_subcarrier info + k * info_comb_size info))
               * cnj (sq ! k)) [0..<sequence_length info]"
    by (subst sq) (simp only: srsvec_prod_conj_def map2_same)
  show ?thesis
    by (simp only: lse_rx_step_def Let_def split_beta summed pc)
       (simp add: srsvec_sc_prod_def comp_def lse_buffer_def Let_def)
qed

lemma lse_rx_fold_temp_lse:
  assumes "0 < nof_symbols (resource config)"
    and "length sq = sequence_length info"
  shows "temp_lse (fold (lse_rx_step grid config il p info sq) [0..<n] s) (r, q) =
     (if q = p \<and> r < n then lse_buffer grid config info sq (ports config ! r)
      else temp_lse s (r, q))"
proof (induction n)
  case 0
  show ?case by simp
next
  case (Suc n)
  show ?case
    using Suc.IH
    by (auto simp add: lse_rx_step_temp_lse [OF assms] less_Suc_eq)
qed

lemma generate_sequence_length: "length (generate_sequence deps len info) = len"
  by (simp add: generate_sequence_def)

lemma lse_port_state_temp_lse:
  assumes "0 < nof_symbols (resource config)"
    and "sequence_length (get_srs_information deps (resource config) p)
           = common_sequence_length deps config"
  shows "temp_lse (lse_port_state deps grid config p s) (r, q) =
     (if q = p \<and> r < length (ports config)
      then lse_buffer grid config (get_srs_information deps (resource config) p)
             (generate_sequence deps (common_sequence_length deps config)
                (get_srs_information deps (resource config) p))
             (ports config ! r)
      else temp_lse s (r, q))"
proof -
  have len: "length (generate_sequence deps (common_sequence_length deps config)
                (get_srs_information deps (resource config) p))
      = sequence_length (get_srs_information deps (resource config) p)"
    by (simp add: generate_sequence_length assms(2))
  show ?thesis
    unfolding lse_port_state_def Let_def
    by (simp add: lse_rx_fold_temp_lse [OF assms(1) len])
qed

lemma lse_tx_step_temp_lse:
  assumes "0 < nof_symbols (resource config)"
    and "sequence_length (get_srs_information deps (resource config) p)
           = common_sequence_length deps config"
  shows "temp_lse (lse_tx_step deps grid config p s) (r, q) =
     (if q = p \<and> r < length (ports config)
      then lse_buffer grid config (get_srs_information deps (resource config) p)
             (generate_sequence deps (common_sequence_length deps config)
                (get_srs_information deps (resource config) p))
             (ports config ! r)
      else temp_lse s (r, q))"
  by (simp add: lse_tx_step_def Let_def lse_port_state_temp_lse [OF assms])

lemma lse_tx_fold_temp_lse:
  assumes "0 < nof_symbols (resource config)"
    and "list_all (\<lambda>p. sequence_length (get_srs_information deps (resource config) p)
                      = common_sequence_length deps config) [0..<n]"
  shows "temp_lse (fold (lse_tx_step deps grid config) [0..<n] s) (r, q) =
     (if q < n \<and> r < length (ports config)
      then lse_buffer grid config (get_srs_information deps (resource config) q)
             (generate_sequence deps (common_sequence_length deps config)
                (get_srs_information deps (resource config) q))
             (ports config ! r)
      else temp_lse s (r, q))"
  using assms(2)
proof (induction n)
  case 0
  show ?case by simp
next
  case (Suc n)
  then have "sequence_length (get_srs_information deps (resource config) n)
        = common_sequence_length deps config"
    and "list_all (\<lambda>p. sequence_length (get_srs_information deps (resource config) p)
                      = common_sequence_length deps config) [0..<n]"
    by simp_all
  then show ?case
    using Suc.IH
    by (auto simp add: lse_tx_step_temp_lse [OF assms(1)] less_Suc_eq)
qed

lemma lse_stage_temp_lse:
  assumes "valid_request deps config"
    and "r < length (ports config)" and "p < nof_antenna_ports (resource config)"
  shows "temp_lse (lse_stage deps grid config) (r, p) =
     lse_buffer grid config (get_srs_information deps (resource config) p)
       (generate_sequence deps (common_sequence_length deps config)
          (get_srs_information deps (resource config) p))
       (ports config ! r)"
proof -
  have "0 < nof_symbols (resource config)"
    using assms(1) by (auto simp: valid_request_def)
  moreover have "list_all (\<lambda>p. sequence_length (get_srs_information deps (resource config) p)
      = common_sequence_length deps config) [0..<nof_antenna_ports (resource config)]"
    using assms(1) by (simp add: valid_request_def)
  ultimately show ?thesis
    using assms(2,3)
    by (simp add: lse_stage_def Let_def lse_tx_fold_temp_lse)
qed

text \<open>
  C7. For a structurally valid request, a receive-port index \<open>r\<close> and a transmit port
  \<open>p\<close>, the least-squares buffer that the first loop leaves for the pair holds, at
  each pilot \<open>k\<close>, the sum over the configured symbols of the comb-sampled received
  value (the first symbol copied, the later ones added), times the conjugate of the
  pilot of \<open>p\<close>, times \<open>1 / num_symbols\<close> when more than one symbol is configured and
  unscaled otherwise.
\<close>

theorem lse_buffer_construction:
  assumes "valid_request deps config"
    and "r < length (ports config)" and "p < nof_antenna_ports (resource config)"
  shows "temp_lse (lse_stage deps grid config) (r, p) =
     map (\<lambda>k. (\<Sum>i = start_symbol (resource config)..<
                       start_symbol (resource config) + nof_symbols (resource config).
                  grid (ports config ! r) i
                    (mapping_initial_subcarrier (get_srs_information deps (resource config) p)
                     + k * info_comb_size (get_srs_information deps (resource config) p)))
              * cnj (generate_sequence deps (common_sequence_length deps config)
                       (get_srs_information deps (resource config) p) ! k)
              * (if 1 < nof_symbols (resource config)
                 then complex_of_real (1 / real (nof_symbols (resource config))) else 1))
       [0..<sequence_length (get_srs_information deps (resource config) p)]"
  using lse_stage_temp_lse [OF assms]
  by (simp only: lse_buffer_def Let_def)

theorem lse_buffer_construction_witness:
  "valid_request (occasion_deps occasion_ta) (occasion_config 1 [0] None)
   \<and> temp_lse (lse_stage (occasion_deps occasion_ta) (constant_grid 2)
        (occasion_config 1 [0] None)) (0, 0) ! 5 = 2"
proof -
  have one: "{13..<14::nat} = {13}"
    by auto
  show ?thesis
    using lse_buffer_construction [where grid = "constant_grid 2" and r = 0 and p = 0,
        OF occasion_valid(1) [of occasion_ta None]]
      occasion_valid(1) [of occasion_ta None]
    by (simp add: occasion_simps one constant_grid_def)
qed

section \<open>Aggregation of the time alignment\<close>

lemma lse_tx_step_ta:
  "ta (lse_tx_step deps grid config p s) =
     combine_ta (ta s) (port_ta_measurement deps config p (lse_port_state deps grid config p s))"
  by (simp add: lse_tx_step_def Let_def lse_port_state_keeps)

lemma ta_fold_tx:
  "ta (fold (lse_tx_step deps grid config) [0..<n] (initial_state deps config)) =
     fold (\<lambda>m acc. combine_ta acc m) (map (ta_measurement deps grid config) [0..<n])
       (ta (initial_state deps config))"
proof (induction n)
  case 0
  show ?case by simp
next
  case (Suc n)
  then show ?case
    by (simp add: lse_tx_step_ta ta_measurement_def)
qed

text \<open>
  The time alignment of the result: the per-port measurements combined in the order of
  the ports, starting from the initial bounds, and the sum of the estimates divided by
  the number of ports.
\<close>

lemma result_ta:
  "result_time_alignment (estimate deps grid config) =
     (fold (\<lambda>m acc. combine_ta acc m)
        (map (ta_measurement deps grid config) [0..<nof_antenna_ports (resource config)])
        (ta (initial_state deps config)))
     \<lparr>time_alignment :=
        time_alignment
          (fold (\<lambda>m acc. combine_ta acc m)
             (map (ta_measurement deps grid config) [0..<nof_antenna_ports (resource config)])
             (ta (initial_state deps config)))
        / real (nof_antenna_ports (resource config))\<rparr>"
  by (simp add: estimate_def Let_def coef_stage_def coef_rx_fold_ta lse_stage_def ta_fold_tx)

lemma fold_combine_time:
  "time_alignment (fold (\<lambda>m acc. combine_ta acc m) ms a) =
     time_alignment a + sum_list (map time_alignment ms)"
  by (induction ms arbitrary: a) (simp_all add: combine_ta_def)

lemma fold_combine_max:
  "ta_max (fold (\<lambda>m acc. combine_ta acc m) ms a) =
     fold (\<lambda>x acc. min acc x) (map ta_max ms) (ta_max a)"
  by (induction ms arbitrary: a) (simp_all add: combine_ta_def)

lemma fold_combine_min:
  "ta_min (fold (\<lambda>m acc. combine_ta acc m) ms a) =
     fold (\<lambda>x acc. max acc x) (map ta_min ms) (ta_min a)"
  by (induction ms arbitrary: a) (simp_all add: combine_ta_def)

lemma fold_combine_resolution:
  "resolution (fold (\<lambda>m acc. combine_ta acc m) ms a) =
     fold (\<lambda>x acc. max acc x) (map resolution ms) (resolution a)"
  by (induction ms arbitrary: a) (simp_all add: combine_ta_def)

text \<open>
  What the source computes for the four fields: the mean of the estimates; the largest
  of \<^verbatim>\<open>std::numeric_limits<double>::min()\<close> and the per-port minima; the smallest of
  \<^verbatim>\<open>std::numeric_limits<double>::max()\<close> and the per-port maxima; the largest of 0
  and the per-port resolutions.
\<close>

lemma result_ta_fields:
  "time_alignment (result_time_alignment (estimate deps grid config)) =
     sum_list (map (\<lambda>p. time_alignment (ta_measurement deps grid config p))
                 [0..<nof_antenna_ports (resource config)])
       / real (nof_antenna_ports (resource config))"
  "ta_min (result_time_alignment (estimate deps grid config)) =
     fold (\<lambda>x acc. max acc x)
       (map (\<lambda>p. ta_min (ta_measurement deps grid config p))
          [0..<nof_antenna_ports (resource config)])
       numeric_limits_double_min"
  "ta_max (result_time_alignment (estimate deps grid config)) =
     fold (\<lambda>x acc. min acc x)
       (map (\<lambda>p. ta_max (ta_measurement deps grid config p))
          [0..<nof_antenna_ports (resource config)])
       numeric_limits_double_max"
  "resolution (result_time_alignment (estimate deps grid config)) =
     fold (\<lambda>x acc. max acc x)
       (map (\<lambda>p. resolution (ta_measurement deps grid config p))
          [0..<nof_antenna_ports (resource config)])
       0"
  by (simp_all add: result_ta fold_combine_time fold_combine_max fold_combine_min
      fold_combine_resolution initial_state_def Let_def comp_def)

lemma fold_combine_max_ge:
  "x \<le> ta_max a \<Longrightarrow> (\<And>m. m \<in> set ms \<Longrightarrow> x \<le> ta_max m) \<Longrightarrow>
   x \<le> ta_max (fold (\<lambda>m acc. combine_ta acc m) ms a)"
  by (induction ms arbitrary: a) (simp_all add: combine_ta_def)

lemma sum_list_upper:
  "(\<And>m. m \<in> set ms \<Longrightarrow> f m \<le> (c::real)) \<Longrightarrow> sum_list (map f ms) \<le> real (length ms) * c"
  by (induction ms) (simp_all add: algebra_simps add_mono)

lemma sum_list_lower:
  "(\<And>m. m \<in> set ms \<Longrightarrow> (c::real) \<le> f m) \<Longrightarrow> real (length ms) * c \<le> sum_list (map f ms)"
  by (induction ms) (simp_all add: algebra_simps add_mono)

lemma ta_measurement_closed:
  assumes "valid_request deps config" and "p < nof_antenna_ports (resource config)"
  shows "ta_measurement deps grid config p =
     ta_estimator deps
       (map (\<lambda>r. lse_buffer grid config (get_srs_information deps (resource config) p)
                   (generate_sequence deps (common_sequence_length deps config)
                      (get_srs_information deps (resource config) p))
                   (ports config ! r))
          [0..<length (ports config)])
       (info_comb_size (get_srs_information deps (resource config) p))
       (scs_to_khz (numerology config)) (max_ta deps config)"
proof -
  have sym: "0 < nof_symbols (resource config)"
    using assms(1) by (auto simp: valid_request_def)
  have "list_all (\<lambda>p. sequence_length (get_srs_information deps (resource config) p)
      = common_sequence_length deps config) [0..<nof_antenna_ports (resource config)]"
    using assms(1) by (simp add: valid_request_def)
  then have len: "sequence_length (get_srs_information deps (resource config) p)
      = common_sequence_length deps config"
    using assms(2) by (simp add: list_all_iff)
  have m: "map (\<lambda>r. temp_lse (lse_port_state deps grid config p s) (r, p))
        [0..<length (ports config)]
      = map (\<lambda>r. lse_buffer grid config (get_srs_information deps (resource config) p)
                   (generate_sequence deps (common_sequence_length deps config)
                      (get_srs_information deps (resource config) p))
                   (ports config ! r))
          [0..<length (ports config)]" for s
    by (rule map_cong) (simp_all add: lse_port_state_temp_lse [OF sym len])
  show ?thesis
    unfolding ta_measurement_def port_ta_measurement_def Let_def
    by (simp only: m)
qed

lemma occasion_ta_measurement:
  "ta_measurement (occasion_deps occasion_ta) grid (occasion_config ntx ps c) p =
     \<lparr>time_alignment = 0, resolution = 1 / 10 ^ 8,
      ta_min = - (1 / 10 ^ 6), ta_max = 1 / 10 ^ 6\<rparr>"
  by (simp add: ta_measurement_def port_ta_measurement_def Let_def occasion_deps_fields
      occasion_ta_def)

lemma upt_two: "[0..<2] = [0, 1]"
  by (simp add: upt_rec [of 0 2] upt_rec [of "Suc 0" 2])

lemma occasion_other_sequence:
  "Suc 0 < len \<Longrightarrow>
   generate_sequence (occasion_deps est) len (occasion_info r (Suc 0)) ! Suc 0 = - 1"
  by (simp add: generate_sequence_def occasion_deps_def occasion_info_def)

lemma two_delays_measurements:
  "ta_measurement (occasion_deps two_delays_ta) (constant_grid 2) (occasion_config 2 [0] None) 0 =
     \<lparr>time_alignment = 1 / 10 ^ 6, resolution = 1 / 10 ^ 8,
      ta_min = 5 / 10 ^ 7, ta_max = 15 / 10 ^ 7\<rparr>"
  "ta_measurement (occasion_deps two_delays_ta) (constant_grid 2) (occasion_config 2 [0] None)
     (Suc 0) =
     \<lparr>time_alignment = 3 / 10 ^ 6, resolution = 1 / 10 ^ 8,
      ta_min = 25 / 10 ^ 7, ta_max = 35 / 10 ^ 7\<rparr>"
proof -
  have one: "{13..<14::nat} = {13}"
    by auto
  show "ta_measurement (occasion_deps two_delays_ta) (constant_grid 2)
      (occasion_config 2 [0] None) 0 =
     \<lparr>time_alignment = 1 / 10 ^ 6, resolution = 1 / 10 ^ 8,
      ta_min = 5 / 10 ^ 7, ta_max = 15 / 10 ^ 7\<rparr>"
    by (simp add: ta_measurement_closed [OF occasion_valid(3)] occasion_simps two_delays_ta_def
        lse_buffer_def one constant_grid_def)
  show "ta_measurement (occasion_deps two_delays_ta) (constant_grid 2)
      (occasion_config 2 [0] None) (Suc 0) =
     \<lparr>time_alignment = 3 / 10 ^ 6, resolution = 1 / 10 ^ 8,
      ta_min = 25 / 10 ^ 7, ta_max = 35 / 10 ^ 7\<rparr>"
    by (simp add: ta_measurement_closed [OF occasion_valid(3)] occasion_config_fields
        occasion_deps_fields occasion_info_fields occasion_sequence_length two_delays_ta_def
        lse_buffer_def one constant_grid_def occasion_other_sequence)
qed

text \<open>
  C4, at a request with one transmit port whose measurement has the bounds
  \<open>\<plusminus>1 \<mu>s\<close>: the mean, the maximum and the resolution of the result are those of the
  measurement, and the minimum of the result is not the minimum \<open>\<midarrow>1 \<mu>s\<close> of the
  measurement but \<^verbatim>\<open>std::numeric_limits<double>::min()\<close>, the smallest positive
  normal double, from which the intersection starts.
\<close>

theorem ta_min_starts_at_smallest_positive:
  "valid_request (occasion_deps occasion_ta) (occasion_config 1 [0] None)
   \<and> ta_measurement (occasion_deps occasion_ta) (constant_grid 2) (occasion_config 1 [0] None) 0
       = \<lparr>time_alignment = 0, resolution = 1 / 10 ^ 8,
          ta_min = - (1 / 10 ^ 6), ta_max = 1 / 10 ^ 6\<rparr>
   \<and> result_time_alignment
        (estimate (occasion_deps occasion_ta) (constant_grid 2) (occasion_config 1 [0] None))
       = \<lparr>time_alignment = 0, resolution = 1 / 10 ^ 8,
          ta_min = 1 / 2 ^ 1022, ta_max = 1 / 10 ^ 6\<rparr>"
  using occasion_valid(1) [of occasion_ta None]
  by (simp add: occasion_ta_measurement result_ta initial_state_def Let_def combine_ta_def
      occasion_config_fields numeric_limits_double_min_def numeric_limits_double_max_def)

text \<open>
  C9 fails where the measurements of two transmit ports have disjoint bounds, 1 \<open>\<mu>s\<close>
  within \<open>[0.5, 1.5]\<close> and 3 \<open>\<mu>s\<close> within \<open>[2.5, 3.5]\<close>: the result has the estimate
  2 \<open>\<mu>s\<close>, the minimum 2.5 \<open>\<mu>s\<close> and the maximum 1.5 \<open>\<mu>s\<close>.
\<close>

theorem ta_bounds_counterexample:
  "valid_request (occasion_deps two_delays_ta) (occasion_config 2 [0] None)
   \<and> result_time_alignment
        (estimate (occasion_deps two_delays_ta) (constant_grid 2) (occasion_config 2 [0] None))
       = \<lparr>time_alignment = 2 / 10 ^ 6, resolution = 1 / 10 ^ 8,
          ta_min = 25 / 10 ^ 7, ta_max = 15 / 10 ^ 7\<rparr>
   \<and> \<not> (ta_min (result_time_alignment
              (estimate (occasion_deps two_delays_ta) (constant_grid 2)
                 (occasion_config 2 [0] None)))
          \<le> time_alignment (result_time_alignment
              (estimate (occasion_deps two_delays_ta) (constant_grid 2)
                 (occasion_config 2 [0] None)))
        \<and> time_alignment (result_time_alignment
              (estimate (occasion_deps two_delays_ta) (constant_grid 2)
                 (occasion_config 2 [0] None)))
          \<le> ta_max (result_time_alignment
              (estimate (occasion_deps two_delays_ta) (constant_grid 2)
                 (occasion_config 2 [0] None))))"
  using occasion_valid(3) [of two_delays_ta None]
  by (simp add: two_delays_measurements result_ta initial_state_def Let_def combine_ta_def
      occasion_config_fields upt_two numeric_limits_double_min_def
      numeric_limits_double_max_def)

text \<open>
  C9, amended. When at least one transmit port is configured and the estimate of every
  port lies within the bounds of every port (as when all ports report the same bounds)
  and is a representable double, the estimate of the result is at most the maximum of
  the result and at least the minimum of every port.
\<close>

theorem ta_estimate_within_compatible_bounds:
  assumes "0 < nof_antenna_ports (resource config)"
    and "\<forall>p<nof_antenna_ports (resource config). \<forall>q<nof_antenna_ports (resource config).
        ta_min (ta_measurement deps grid config p)
          \<le> time_alignment (ta_measurement deps grid config q) \<and>
        time_alignment (ta_measurement deps grid config q)
          \<le> ta_max (ta_measurement deps grid config p)"
    and "\<forall>q<nof_antenna_ports (resource config).
        time_alignment (ta_measurement deps grid config q) \<le> numeric_limits_double_max"
  shows "time_alignment (result_time_alignment (estimate deps grid config))
           \<le> ta_max (result_time_alignment (estimate deps grid config))
       \<and> (\<forall>p<nof_antenna_ports (resource config).
             ta_min (ta_measurement deps grid config p)
               \<le> time_alignment (result_time_alignment (estimate deps grid config)))"
proof -
  let ?n = "nof_antenna_ports (resource config)"
  let ?ms = "map (ta_measurement deps grid config) [0..<?n]"
  let ?agg = "fold (\<lambda>m acc. combine_ta acc m) ?ms (ta (initial_state deps config))"
  have total: "time_alignment ?agg = sum_list (map time_alignment ?ms)"
    by (simp add: fold_combine_time initial_state_def Let_def)
  have each: "time_alignment m \<le> ta_max ?agg" if "m \<in> set ?ms" for m
  proof (rule fold_combine_max_ge)
    show "time_alignment m \<le> ta_max (ta (initial_state deps config))"
      using that assms(3) by (auto simp: initial_state_def Let_def)
    show "time_alignment m \<le> ta_max m'" if "m' \<in> set ?ms" for m'
      using that \<open>m \<in> set ?ms\<close> assms(2) by auto
  qed
  have "sum_list (map time_alignment ?ms) \<le> real (length ?ms) * ta_max ?agg"
    using each by (rule sum_list_upper)
  then have upper: "time_alignment ?agg / real ?n \<le> ta_max ?agg"
    using assms(1) by (simp add: total field_simps)
  have lower: "ta_min (ta_measurement deps grid config p) \<le> time_alignment ?agg / real ?n"
    if "p < ?n" for p
  proof -
    have "real (length ?ms) * ta_min (ta_measurement deps grid config p)
        \<le> sum_list (map time_alignment ?ms)"
      using that assms(2) by (intro sum_list_lower) auto
    then show ?thesis
      using assms(1) by (simp add: total field_simps)
  qed
  show ?thesis
    using upper lower by (simp add: result_ta)
qed

theorem ta_estimate_within_compatible_bounds_witness:
  "time_alignment (result_time_alignment
      (estimate (occasion_deps occasion_ta) (constant_grid 2) (occasion_config 2 [0] None)))
     \<le> ta_max (result_time_alignment
      (estimate (occasion_deps occasion_ta) (constant_grid 2) (occasion_config 2 [0] None)))
   \<and> ta_min (ta_measurement (occasion_deps occasion_ta) (constant_grid 2)
        (occasion_config 2 [0] None) 1)
     \<le> time_alignment (result_time_alignment
      (estimate (occasion_deps occasion_ta) (constant_grid 2) (occasion_config 2 [0] None)))
   \<and> ta_max (result_time_alignment
      (estimate (occasion_deps occasion_ta) (constant_grid 2) (occasion_config 2 [0] None)))
     = 1 / 10 ^ 6"
proof -
  have "time_alignment (result_time_alignment
      (estimate (occasion_deps occasion_ta) (constant_grid 2) (occasion_config 2 [0] None)))
     \<le> ta_max (result_time_alignment
      (estimate (occasion_deps occasion_ta) (constant_grid 2) (occasion_config 2 [0] None)))
    \<and> (\<forall>p<nof_antenna_ports (resource (occasion_config 2 [0] None)).
         ta_min (ta_measurement (occasion_deps occasion_ta) (constant_grid 2)
            (occasion_config 2 [0] None) p)
         \<le> time_alignment (result_time_alignment
      (estimate (occasion_deps occasion_ta) (constant_grid 2) (occasion_config 2 [0] None))))"
    by (rule ta_estimate_within_compatible_bounds)
       (simp_all add: occasion_ta_measurement occasion_config_fields
          numeric_limits_double_max_def)
  moreover have "ta_max (result_time_alignment
      (estimate (occasion_deps occasion_ta) (constant_grid 2) (occasion_config 2 [0] None)))
     = 1 / 10 ^ 6"
    by (simp add: occasion_ta_measurement result_ta initial_state_def Let_def combine_ta_def
        occasion_config_fields upt_two numeric_limits_double_max_def)
  ultimately show ?thesis
    by (simp add: occasion_config_fields)
qed

section \<open>The clamp of the noise standard deviation\<close>

lemma std_norm_nonneg: "0 \<le> std_norm c"
  by (simp add: std_norm_def)

lemma average_power_nonneg: "0 \<le> srsvec_average_power x"
  by (auto simp: srsvec_average_power_def intro!: divide_nonneg_nonneg sum_list_nonneg)

lemma coef_tx_step_nonneg:
  "0 \<le> rsrp s \<and> 0 \<le> noise_var s \<Longrightarrow>
   0 \<le> rsrp (coef_tx_step deps config r p s) \<and> 0 \<le> noise_var (coef_tx_step deps config r p s)"
  by (simp add: coef_tx_step_def Let_def std_norm_nonneg split: option.splits)

lemma coef_tx_fold_nonneg:
  "0 \<le> rsrp s \<and> 0 \<le> noise_var s \<Longrightarrow>
   0 \<le> rsrp (fold (coef_tx_step deps config r) ps s)
   \<and> 0 \<le> noise_var (fold (coef_tx_step deps config r) ps s)"
  by (induction ps arbitrary: s) (simp_all add: coef_tx_step_nonneg)

lemma coef_rx_step_nonneg:
  assumes "0 \<le> rsrp s \<and> 0 \<le> noise_var s"
  shows "0 \<le> rsrp (coef_rx_step deps config r s) \<and> 0 \<le> noise_var (coef_rx_step deps config r s)"
  using coef_tx_fold_nonneg [OF assms, of deps config r "[0..<nof_antenna_ports (resource config)]"]
  by (simp add: coef_rx_step_def Let_def average_power_nonneg)

lemma coef_rx_fold_nonneg:
  "0 \<le> rsrp s \<and> 0 \<le> noise_var s \<Longrightarrow>
   0 \<le> rsrp (fold (coef_rx_step deps config) rs s)
   \<and> 0 \<le> noise_var (fold (coef_rx_step deps config) rs s)"
  by (induction rs arbitrary: s) (simp_all add: coef_rx_step_nonneg)

lemma coef_stage_nonneg:
  "0 \<le> rsrp (coef_stage deps grid config)" "0 \<le> noise_var (coef_stage deps grid config)"
  using coef_rx_fold_nonneg [of "lse_stage deps grid config" deps config
      "[0..<length (ports config)]"]
  by (simp_all add: coef_stage_def lse_stage_keeps)

lemma f_max_Finite: "f_max (Finite a) (Finite b) = Finite (max a b)"
  by (simp add: f_max_def max_def)

lemma normalized_rsrp_valid:
  assumes "valid_request deps config"
  shows "normalized_rsrp deps grid config =
     Finite (rsrp (coef_stage deps grid config)
             / real (nof_antenna_ports (resource config) * length (ports config)))"
proof -
  have "0 < nof_antenna_ports (resource config)"
    using valid_request_bounds(1) [OF assms] by linarith
  moreover have "0 < length (ports config)"
    using valid_request_bounds(5) [OF assms] by linarith
  ultimately have "0 < nof_antenna_ports (resource config) * length (ports config)"
    by (rule mult_pos_pos)
  then have "0 < real (unat (rsrp_divisor config))"
    by (simp only: rsrp_divisor_unat [OF assms] of_nat_0_less_iff)
  then have "real (unat (rsrp_divisor config)) \<noteq> 0"
    by (metis less_irrefl)
  then have "normalized_rsrp deps grid config =
      Finite (rsrp (coef_stage deps grid config) / real (unat (rsrp_divisor config)))"
    unfolding normalized_rsrp_def fdiv_def by (rule if_P)
  then show ?thesis
    by (simp only: rsrp_divisor_unat [OF assms])
qed

lemma occasion_two_rx_lse_stage:
  "lse_stage (occasion_deps occasion_ta) (constant_grid g) (occasion_config (Suc 0) [0, Suc 0] c) =
     \<lparr>temp_lse = (\<lambda>v. replicate 12 0)((0, 0) := replicate 12 g, (Suc 0, 0) := replicate 12 g),
      temp_noise = (\<lambda>v. replicate 12 0)((0, 0) := replicate 12 g, (0, Suc 0) := replicate 12 g),
      all_sequences = (\<lambda>v. replicate 12 0)(0 := replicate 12 1),
      epre = (cmod g)\<^sup>2 + (cmod g)\<^sup>2,
      ta = \<lparr>time_alignment = 0, resolution = 1 / 10 ^ 8,
             ta_min = numeric_limits_double_min, ta_max = 1 / 10 ^ 6\<rparr>,
      chan = [[0], [0]], rsrp = 0, noise_var = 0, csi_log = []\<rparr>"
  by (simp add: lse_stage_def lse_tx_step_def lse_port_state_def lse_rx_step_def symbol_step_def
      port_ta_measurement_def initial_state_def combine_ta_def noise_parity_def Let_def
      numeric_limits_double_min_def numeric_limits_double_max_def srs_channel_matrix_def
      occasion_simps upt_two)

lemma occasion_two_rx_coef_stage:
  "rsrp (coef_stage (occasion_deps occasion_ta) (constant_grid g)
      (occasion_config (Suc 0) [0, Suc 0] (Some ''sector_id=0 rnti=0x4601'')))
     = std_norm g + std_norm g"
  "noise_var (coef_stage (occasion_deps occasion_ta) (constant_grid g)
      (occasion_config (Suc 0) [0, Suc 0] (Some ''sector_id=0 rnti=0x4601''))) = 0"
  "chan (coef_stage (occasion_deps occasion_ta) (constant_grid g)
      (occasion_config (Suc 0) [0, Suc 0] (Some ''sector_id=0 rnti=0x4601''))) = [[g], [g]]"
  by (simp_all add: coef_stage_def occasion_two_rx_lse_stage coef_rx_step_def coef_tx_step_def
      csi_collect_def extract_rnti_occasion phase_shift_subcarrier_def phase_shift_offset_def
      noise_parity_def set_coefficient_def Let_def occasion_simps upt_two)

lemma sqrt_eight: "sqrt 8 \<noteq> 2"
proof
  assume "sqrt 8 = 2"
  moreover have "(sqrt 8)\<^sup>2 = 8"
    by simp
  ultimately have "(2::real)\<^sup>2 = 8"
    by (simp only:)
  then show False
    by simp
qed

text \<open>
  C5 fails at a request with one transmit port and two receive ports on a grid that
  holds the sample 2 everywhere: the residual is zero, the sum of the squared
  coefficients is 8 and the returned RSRP is 4; the noise standard deviation is
  \<open>\<surd>8 \<times> 0.01\<close>, from the sum, and not \<open>max(\<surd>0, \<surd>4 \<times> 0.01)\<close>, from the returned
  RSRP.
\<close>

theorem noise_std_normalized_rsrp_counterexample:
  "valid_request (occasion_deps occasion_ta)
     (occasion_config 1 [0, 1] (Some ''sector_id=0 rnti=0x4601''))
   \<and> noise_variance (estimate (occasion_deps occasion_ta) (constant_grid 2)
        (occasion_config 1 [0, 1] (Some ''sector_id=0 rnti=0x4601''))) = Finite 0
   \<and> normalized_rsrp (occasion_deps occasion_ta) (constant_grid 2)
        (occasion_config 1 [0, 1] (Some ''sector_id=0 rnti=0x4601'')) = Finite 4
   \<and> noise_std (occasion_deps occasion_ta) (constant_grid 2)
        (occasion_config 1 [0, 1] (Some ''sector_id=0 rnti=0x4601'')) = Finite (sqrt 8 * (1 / 100))
   \<and> noise_std (occasion_deps occasion_ta) (constant_grid 2)
        (occasion_config 1 [0, 1] (Some ''sector_id=0 rnti=0x4601''))
       \<noteq> f_max (f_sqrt (Finite 0)) (Finite (sqrt 4 * (1 / 100)))"
  using occasion_valid(2) [of occasion_ta "Some ''sector_id=0 rnti=0x4601''"] sqrt_eight
  by (simp add: estimate_def noise_std_def normalized_noise_var_def normalized_rsrp_def
      occasion_two_rx_coef_stage fdiv_def f_max_def rsrp_divisor_def noise_divisor_def
      nof_estimates_def correction_factor_def occasion_simps std_norm_def)

text \<open>
  C5, amended. For a structurally valid request every entry of the channel matrix is
  scaled by \<open>1 / noise_std\<close>, where
  \<open>noise_std = max(\<surd>noise_variance, \<surd>rsrp_sum \<times> 0.01)\<close>, \<open>noise_variance\<close> is the
  normalised value that is returned and \<open>rsrp_sum\<close> is the sum of the squared
  magnitudes of the coefficients before it is divided by
  \<open>num_tx_ports \<times> num_rx_ports\<close>. Consequently \<open>noise_std\<close> is at least
  \<open>\<surd>rsrp \<times> 0.01\<close> for the returned \<open>rsrp\<close>, which is the sum divided by that
  product.
\<close>

theorem noise_std_clamp:
  assumes "valid_request deps config"
  shows "channel_matrix (estimate deps grid config)
           = scale_matrix (chan (coef_stage deps grid config))
               (f_recip (noise_std deps grid config))
       \<and> noise_std deps grid config
           = f_max (f_sqrt (noise_variance (estimate deps grid config)))
               (Finite (sqrt (rsrp (coef_stage deps grid config)) * (1 / 100)))
       \<and> rsrp_dB (estimate deps grid config)
           = convert_power_to_dB
               (Finite (rsrp (coef_stage deps grid config)
                        / real (nof_antenna_ports (resource config) * length (ports config))))
       \<and> (\<exists>\<sigma>. noise_std deps grid config = Finite \<sigma>
              \<and> sqrt (rsrp (coef_stage deps grid config)
                       / real (nof_antenna_ports (resource config) * length (ports config)))
                  * (1 / 100) \<le> \<sigma>)"
proof -
  let ?d = "real ((nof_symbols (resource config) * common_sequence_length deps config
                        - nof_estimates deps config)
                     * correction_factor deps config * length (ports config))"
  let ?k = "real (nof_antenna_ports (resource config) * length (ports config))"
  let ?r = "rsrp (coef_stage deps grid config)"
  let ?v = "noise_var (coef_stage deps grid config)"
  have nv: "normalized_noise_var deps grid config = Finite (?v / ?d)"
    by (rule normalized_noise_var_valid [OF assms])
  have "0 \<le> ?v / ?d"
    using coef_stage_nonneg(2) [of deps grid config] by (intro divide_nonneg_nonneg) simp_all
  then have std: "noise_std deps grid config = Finite (max (sqrt (?v / ?d)) (sqrt ?r * (1 / 100)))"
    by (simp add: noise_std_def nv f_max_Finite)
  have k: "1 \<le> ?k"
  proof -
    have "0 < nof_antenna_ports (resource config)"
      using valid_request_bounds(1) [OF assms] by linarith
    moreover have "0 < length (ports config)"
      using valid_request_bounds(5) [OF assms] by linarith
    ultimately have "0 < nof_antenna_ports (resource config) * length (ports config)"
      by (rule mult_pos_pos)
    then have "1 \<le> nof_antenna_ports (resource config) * length (ports config)"
      by linarith
    then show ?thesis
      by (metis of_nat_1 of_nat_le_iff)
  qed
  have "?r / ?k \<le> ?r"
  proof -
    have "?r / ?k \<le> ?r / 1"
      using coef_stage_nonneg(1) [of deps grid config] k
      by (intro divide_left_mono) simp_all
    then show ?thesis by simp
  qed
  then have "sqrt (?r / ?k) \<le> sqrt ?r"
    by (simp only: real_sqrt_le_iff)
  then have "sqrt (?r / ?k) * (1 / 100) \<le> sqrt ?r * (1 / 100)"
    by (rule mult_right_mono) simp
  then have "sqrt (?r / ?k) * (1 / 100) \<le> max (sqrt (?v / ?d)) (sqrt ?r * (1 / 100))"
    by (rule order_trans) (rule max.cobounded2)
  then have "\<exists>\<sigma>. noise_std deps grid config = Finite \<sigma> \<and> sqrt (?r / ?k) * (1 / 100) \<le> \<sigma>"
    using std by blast
  moreover have "rsrp_dB (estimate deps grid config) = convert_power_to_dB (Finite (?r / ?k))"
    by (simp only: estimate_def Let_def srs_estimator_result.simps
        normalized_rsrp_valid [OF assms])
  moreover have "noise_std deps grid config
      = f_max (f_sqrt (noise_variance (estimate deps grid config))) (Finite (sqrt ?r * (1 / 100)))"
    by (simp add: estimate_def Let_def noise_std_def)
  moreover have "channel_matrix (estimate deps grid config)
      = scale_matrix (chan (coef_stage deps grid config)) (f_recip (noise_std deps grid config))"
    by (simp add: estimate_def Let_def)
  ultimately show ?thesis
    by (simp only: simp_thms)
qed

theorem noise_std_clamp_witness:
  "valid_request (occasion_deps occasion_ta)
     (occasion_config 1 [0] (Some ''sector_id=0 rnti=0x4601''))
   \<and> noise_std (occasion_deps occasion_ta) (constant_grid 2)
        (occasion_config 1 [0] (Some ''sector_id=0 rnti=0x4601'')) = Finite (1 / 50)
   \<and> channel_matrix (estimate (occasion_deps occasion_ta) (constant_grid 2)
        (occasion_config 1 [0] (Some ''sector_id=0 rnti=0x4601'')))
       = [[(Finite 100, Finite 0)]]"
  using noise_std_clamp [where grid = "constant_grid 2",
      OF occasion_valid(1) [of occasion_ta "Some ''sector_id=0 rnti=0x4601''"]]
    occasion_valid(1) [of occasion_ta "Some ''sector_id=0 rnti=0x4601''"]
  by (simp add: estimate_def normalized_noise_var_def occasion_coef_stage_logged
      occasion_divisors fdiv_def f_max_def scale_matrix_def std_norm_def)

section \<open>The shape of the channel matrix\<close>

lemma set_coefficient_shape:
  assumes "length m = nrx \<and> list_all (\<lambda>row. length row = ntx) m"
  shows "length (set_coefficient m c r p) = nrx
       \<and> list_all (\<lambda>row. length row = ntx) (set_coefficient m c r p)"
proof (cases "r < length m")
  case True
  then have "length ((m ! r)[p := c]) = ntx"
    using assms by (simp add: list_all_length)
  then show ?thesis
    using assms True by (auto simp: set_coefficient_def list_all_length nth_list_update)
next
  case False
  then have "m[r := (m ! r)[p := c]] = m"
    by (simp add: list_update_beyond)
  then show ?thesis
    using assms by (simp add: set_coefficient_def)
qed

lemma coef_tx_step_shape:
  assumes "length (chan s) = nrx \<and> list_all (\<lambda>row. length row = ntx) (chan s)"
  shows "length (chan (coef_tx_step deps config r p s)) = nrx
       \<and> list_all (\<lambda>row. length row = ntx) (chan (coef_tx_step deps config r p s))"
  using assms set_coefficient_shape [OF assms]
  by (simp add: coef_tx_step_def Let_def split: option.splits)

lemma coef_tx_fold_shape:
  "length (chan s) = nrx \<and> list_all (\<lambda>row. length row = ntx) (chan s) \<Longrightarrow>
   length (chan (fold (coef_tx_step deps config r) ps s)) = nrx
   \<and> list_all (\<lambda>row. length row = ntx) (chan (fold (coef_tx_step deps config r) ps s))"
proof (induction ps arbitrary: s)
  case Nil
  then show ?case by simp
next
  case (Cons a ps)
  show ?case
    using Cons.IH [OF coef_tx_step_shape [OF Cons.prems]] by simp
qed

lemma coef_rx_step_shape:
  assumes "length (chan s) = nrx \<and> list_all (\<lambda>row. length row = ntx) (chan s)"
  shows "length (chan (coef_rx_step deps config r s)) = nrx
       \<and> list_all (\<lambda>row. length row = ntx) (chan (coef_rx_step deps config r s))"
  using coef_tx_fold_shape [OF assms, of deps config r "[0..<nof_antenna_ports (resource config)]"]
  by (simp add: coef_rx_step_def Let_def)

lemma coef_rx_fold_shape:
  "length (chan s) = nrx \<and> list_all (\<lambda>row. length row = ntx) (chan s) \<Longrightarrow>
   length (chan (fold (coef_rx_step deps config) rs s)) = nrx
   \<and> list_all (\<lambda>row. length row = ntx) (chan (fold (coef_rx_step deps config) rs s))"
proof (induction rs arbitrary: s)
  case Nil
  then show ?case by simp
next
  case (Cons a rs)
  show ?case
    using Cons.IH [OF coef_rx_step_shape [OF Cons.prems]] by simp
qed

text \<open>
  For every request the channel matrix of the result has one row per requested receive
  port and one column per transmit port.
\<close>

lemma channel_matrix_shape:
  "length (channel_matrix (estimate deps grid config)) = length (ports config)
   \<and> list_all (\<lambda>row. length row = nof_antenna_ports (resource config))
       (channel_matrix (estimate deps grid config))"
proof -
  have "length (chan (lse_stage deps grid config)) = length (ports config)
      \<and> list_all (\<lambda>row. length row = nof_antenna_ports (resource config))
          (chan (lse_stage deps grid config))"
    by (simp add: lse_stage_keeps srs_channel_matrix_def list_all_length)
  then have "length (chan (coef_stage deps grid config)) = length (ports config)
      \<and> list_all (\<lambda>row. length row = nof_antenna_ports (resource config))
          (chan (coef_stage deps grid config))"
    unfolding coef_stage_def by (rule coef_rx_fold_shape)
  then show ?thesis
    by (simp add: estimate_def Let_def scale_matrix_def list_all_length)
qed

section \<open>Requests on which the result departs from the specification\<close>

text \<open>
  C3, at a structurally valid request on a grid whose samples are all zero: the channel
  matrix has its shape, one row and one column, and its entry is not a finite number. The
  noise variance and the RSRP sum are both zero, so \<open>noise_std\<close> is zero, the factor
  \<open>1 / noise_std\<close> is infinite and the product of the zero coefficient with it is not a
  number.
\<close>

theorem zero_grid_channel_matrix_not_finite:
  "valid_request (occasion_deps occasion_ta)
     (occasion_config 1 [0] (Some ''sector_id=0 rnti=0x4601''))
   \<and> noise_std (occasion_deps occasion_ta) (constant_grid 0)
        (occasion_config 1 [0] (Some ''sector_id=0 rnti=0x4601'')) = Finite 0
   \<and> channel_matrix (estimate (occasion_deps occasion_ta) (constant_grid 0)
        (occasion_config 1 [0] (Some ''sector_id=0 rnti=0x4601''))) = [[(NaN, NaN)]]
   \<and> \<not> is_finite (fst (channel_matrix (estimate (occasion_deps occasion_ta) (constant_grid 0)
        (occasion_config 1 [0] (Some ''sector_id=0 rnti=0x4601''))) ! 0 ! 0))"
  using occasion_valid(1) [of occasion_ta "Some ''sector_id=0 rnti=0x4601''"]
  by (simp add: estimate_def noise_std_def normalized_noise_var_def occasion_coef_stage_logged
      occasion_divisors fdiv_def f_max_def scale_matrix_def std_norm_def)

text \<open>
  C1, at two structurally valid requests that differ only in the context, on a grid
  that holds the sample 2 everywhere. Without a context every iteration of the second
  loop ends at the diagnostic block: the channel coefficient stays zero and the RSRP is
  zero (\<open>\<midarrow>\<infinity>\<close> dB). With a context that names the RNTI 0x4601 the coefficient is
  computed: the normalised channel coefficient is 100 and the RSRP is 4.
\<close>

theorem csi_context_changes_result:
  "valid_request (occasion_deps occasion_ta) (occasion_config 1 [0] None)
   \<and> valid_request (occasion_deps occasion_ta)
        (occasion_config 1 [0] (Some ''sector_id=0 rnti=0x4601''))
   \<and> channel_matrix (estimate (occasion_deps occasion_ta) (constant_grid 2)
        (occasion_config 1 [0] None)) = [[(Finite 0, Finite 0)]]
   \<and> rsrp_dB (estimate (occasion_deps occasion_ta) (constant_grid 2)
        (occasion_config 1 [0] None)) = NInf
   \<and> noise_variance (estimate (occasion_deps occasion_ta) (constant_grid 2)
        (occasion_config 1 [0] None)) = Finite (48 / 11)
   \<and> channel_matrix (estimate (occasion_deps occasion_ta) (constant_grid 2)
        (occasion_config 1 [0] (Some ''sector_id=0 rnti=0x4601''))) = [[(Finite 100, Finite 0)]]
   \<and> rsrp_dB (estimate (occasion_deps occasion_ta) (constant_grid 2)
        (occasion_config 1 [0] (Some ''sector_id=0 rnti=0x4601''))) = Finite (10 * log 10 4)
   \<and> noise_variance (estimate (occasion_deps occasion_ta) (constant_grid 2)
        (occasion_config 1 [0] (Some ''sector_id=0 rnti=0x4601''))) = Finite 0
   \<and> estimate (occasion_deps occasion_ta) (constant_grid 2) (occasion_config 1 [0] None)
       \<noteq> estimate (occasion_deps occasion_ta) (constant_grid 2)
            (occasion_config 1 [0] (Some ''sector_id=0 rnti=0x4601''))"
proof -
  have skipped: "estimate (occasion_deps occasion_ta) (constant_grid 2)
      (occasion_config (Suc 0) [0] None) =
      \<lparr>channel_matrix = [[(Finite 0, Finite 0)]],
       result_time_alignment = \<lparr>time_alignment = 0, resolution = 1 / 10 ^ 8,
             ta_min = numeric_limits_double_min, ta_max = 1 / 10 ^ 6\<rparr>,
       noise_variance = Finite (48 / 11),
       epre_dB = Finite (10 * log 10 4),
       rsrp_dB = NInf\<rparr>"
    by (simp add: estimate_def noise_std_def normalized_noise_var_def normalized_epre_def
        normalized_rsrp_def occasion_coef_stage_skipped occasion_divisors fdiv_def f_max_def
        scale_matrix_def)
  have logged: "estimate (occasion_deps occasion_ta) (constant_grid 2)
      (occasion_config (Suc 0) [0] (Some ''sector_id=0 rnti=0x4601'')) =
      \<lparr>channel_matrix = [[(Finite 100, Finite 0)]],
       result_time_alignment = \<lparr>time_alignment = 0, resolution = 1 / 10 ^ 8,
             ta_min = numeric_limits_double_min, ta_max = 1 / 10 ^ 6\<rparr>,
       noise_variance = Finite 0,
       epre_dB = Finite (10 * log 10 4),
       rsrp_dB = Finite (10 * log 10 4)\<rparr>"
    by (simp add: estimate_def noise_std_def normalized_noise_var_def normalized_epre_def
        normalized_rsrp_def occasion_coef_stage_logged occasion_divisors fdiv_def f_max_def
        scale_matrix_def std_norm_def)
  show ?thesis
    using occasion_valid(1) [of occasion_ta None]
      occasion_valid(1) [of occasion_ta "Some ''sector_id=0 rnti=0x4601''"]
    by (simp add: skipped logged)
qed

end
